theory Spec2Isabelle
  imports Complex_Main
begin

section \<open>Common types\<close>

text \<open>
  The repository's models are Mongoose schemas. A document is a record whose fields are
  \<open>'a option\<close> where the schema lets the path be absent, and plain where the schema
  gives a default. An ObjectId is an opaque key, a JavaScript \<open>Date\<close> is its number of
  milliseconds since the epoch, and a calendar date (a \<open>Date\<close> at midnight) is its day
  number since 1970-01-01. Field names carry a short prefix per schema, since the
  schemas share names such as \<open>startTime\<close> and \<open>isActive\<close>.
\<close>

type_synonym objectId = nat
type_synonym timestamp = int
type_synonym date = int

datatype error =
    ValidationError
  | ConflictError
  | NotFoundError
  | SessionExpiredError
  | InvalidTokenError
  | OutOfRangeError
  | InactiveSessionError

text \<open>
  Mongoose's \<open>required: true\<close>: the path must be present; for a \<open>String\<close> path the
  value must also be non-empty.
\<close>

definition requiredString :: "string option \<Rightarrow> bool" where
  "requiredString v = (case v of None \<Rightarrow> False | Some s \<Rightarrow> s \<noteq> [])"

definition requiredPath :: "'a option \<Rightarrow> bool" where
  "requiredPath v = (v \<noteq> None)"

text \<open>
  Mongoose's \<open>enum\<close> validator: an absent value passes (absence is the business of
  \<open>required\<close>), a present one must be a member of the list.
\<close>

definition enumString :: "string list \<Rightarrow> string option \<Rightarrow> bool" where
  "enumString allowed v = (case v of None \<Rightarrow> True | Some s \<Rightarrow> s \<in> set allowed)"

section \<open>TimeSlot (timeSlotModel.js)\<close>

text \<open>
  \<open>calculateDuration\<close> rests on two primitives of the JavaScript engine, which are
  parameters of the model: the time value of \<open>new Date(text)\<close>, an integral number of
  milliseconds or none for an Invalid Date, and the division of two integral numbers,
  a double. What an engine makes of a date-time text is fixed by the language for the
  texts of its date-time format and left to the engine for the others; nothing is
  assumed of it here.
\<close>

record jsEngine =
  en_dateValue :: "string \<Rightarrow> int option"
  en_divide :: "int \<Rightarrow> int \<Rightarrow> real"

text \<open>The number \<open>calculateDuration\<close> returns: a double, or \<open>NaN\<close>.\<close>

datatype js_number = Num real | NaN

record timeSlot =
  ts_name :: "string option"
  ts_startTime :: "string option"
  ts_endTime :: "string option"
  ts_type :: "string option"
  ts_duration :: "real option"
  ts_isActive :: bool
  ts_order :: "int option"
  ts_createdBy :: "objectId option"

text \<open>
  The template literal \<open>`2000-01-01T${t}:00`\<close>; an absent path interpolates as the text
  \<open>undefined\<close>.
\<close>

definition interpolate :: "string option \<Rightarrow> string" where
  "interpolate v = (case v of None \<Rightarrow> ''undefined'' | Some t \<Rightarrow> t)"

definition dateText :: "string \<Rightarrow> string" where
  "dateText t = ''2000-01-01T'' @ t @ '':00''"

text \<open>
  \<open>calculateDuration\<close>: \<open>(end - start) / (1000 * 60)\<close>. The difference of two valid
  dates is the difference of their time values; with an Invalid Date on either side it
  is \<open>NaN\<close>, and so is the quotient.
\<close>

definition calculateDuration :: "jsEngine \<Rightarrow> timeSlot \<Rightarrow> js_number" where
  "calculateDuration engine s =
     (case (en_dateValue engine (dateText (interpolate (ts_startTime s))),
            en_dateValue engine (dateText (interpolate (ts_endTime s)))) of
        (Some start, Some end) \<Rightarrow> Num (en_divide engine (end - start) (1000 * 60))
      | _ \<Rightarrow> NaN)"

text \<open>The schema's validators: four required paths and the enum of \<open>type\<close>. No
  validator looks at the format of \<open>startTime\<close> and \<open>endTime\<close> or compares them.\<close>

definition timeSlotTypes :: "string list" where
  "timeSlotTypes = [''lecture'', ''lab'', ''break'']"

definition validateTimeSlot :: "timeSlot \<Rightarrow> bool" where
  "validateTimeSlot s =
     (requiredString (ts_name s) \<and> requiredString (ts_startTime s)
      \<and> requiredString (ts_endTime s)
      \<and> requiredString (ts_type s) \<and> enumString timeSlotTypes (ts_type s)
      \<and> requiredPath (ts_order s))"

text \<open>
  The assignment \<open>this.duration = v\<close> to the \<open>Number\<close> path: Mongoose casts the value,
  the cast refuses \<open>NaN\<close>, and a refused value is not set, so the path keeps what it
  had (a value or nothing).
\<close>

definition assignDuration :: "js_number \<Rightarrow> timeSlot \<Rightarrow> timeSlot" where
  "assignDuration v s = (case v of NaN \<Rightarrow> s | Num r \<Rightarrow> s\<lparr>ts_duration := Some r\<rparr>)"

text \<open>The \<open>pre('save')\<close> hook; the two flags are \<open>isModified('startTime')\<close> and
  \<open>isModified('endTime')\<close>.\<close>

definition preSave :: "jsEngine \<Rightarrow> bool \<Rightarrow> bool \<Rightarrow> timeSlot \<Rightarrow> timeSlot" where
  "preSave engine modStart modEnd s =
     (if modStart \<or> modEnd then assignDuration (calculateDuration engine s) s else s)"

text \<open>
  \<open>save()\<close>: Mongoose validates first, then runs the schema's own pre-save hooks, then
  writes the document. The result is the stored document.
\<close>

definition saveTimeSlot :: "jsEngine \<Rightarrow> bool \<Rightarrow> bool \<Rightarrow> timeSlot \<Rightarrow> error + timeSlot" where
  "saveTimeSlot engine modStart modEnd s =
     (if validateTimeSlot s then Inr (preSave engine modStart modEnd s)
      else Inl ValidationError)"

text \<open>
  The documented format of \<open>startTime\<close> and \<open>endTime\<close>, \<open>"HH:MM"\<close> on the 24-hour clock
  (\<open>"09:00"\<close>): the minute of the day that a text of this format denotes, and none for
  a text that is not of this format.
\<close>

definition digitValue :: "char \<Rightarrow> nat option" where
  "digitValue c =
     (let n = (of_char c :: nat) in if 48 \<le> n \<and> n \<le> 57 then Some (n - 48) else None)"

fun clockMinutes :: "string \<Rightarrow> nat option" where
  "clockMinutes [h1, h2, sep, m1, m2] =
     (case (digitValue h1, digitValue h2, digitValue m1, digitValue m2) of
        (Some a, Some b, Some c, Some d) \<Rightarrow>
          (let hh = 10 * a + b; mm = 10 * c + d
           in if sep = CHR '':'' \<and> hh \<le> 23 \<and> mm \<le> 59
              then Some (60 * hh + mm) else None)
      | _ \<Rightarrow> None)"
| "clockMinutes _ = None"

section \<open>RecurringSchedule, ScheduleOverride, ScheduleInstance (recurringScheduleModel.js)\<close>

text \<open>
  The three schemas with their paths, defaults and validators. The \<open>timestamps\<close> option's
  \<open>createdAt\<close>/\<open>updatedAt\<close> are bookkeeping and are left out. \<open>_id\<close> is kept for the
  template and the override, which other documents refer to.
\<close>

record geoPoint =
  gp_type :: string
  gp_coordinates :: "real list"

definition defaultLocation :: geoPoint where
  "defaultLocation = \<lparr>gp_type = ''Point'', gp_coordinates = [0, 0]\<rparr>"

record recurringSchedule =
  rs_id :: objectId
  rs_classId :: "objectId option"
  rs_teacherId :: "objectId option"
  rs_title :: "string option"
  rs_sessionType :: "string option"
  rs_dayOfWeek :: "string option"
  rs_startTime :: "string option"
  rs_endTime :: "string option"
  rs_roomNumber :: "string option"
  rs_semester :: "string option"
  rs_academicYear :: "string option"
  rs_semesterStartDate :: "date option"
  rs_semesterEndDate :: "date option"
  rs_isRecurring :: bool
  rs_frequency :: string
  rs_isActive :: bool
  rs_description :: "string option"
  rs_notes :: "string option"
  rs_location :: geoPoint

record scheduleOverride =
  ov_id :: objectId
  ov_recurringScheduleId :: "objectId option"
  ov_classId :: "objectId option"
  ov_teacherId :: "objectId option"
  ov_overrideDate :: "date option"
  ov_overrideType :: "string option"
  ov_newStartTime :: "string option"
  ov_newEndTime :: "string option"
  ov_newRoomNumber :: "string option"
  ov_newDate :: "date option"
  ov_reason :: "string option"
  ov_notes :: "string option"
  ov_isActive :: bool

record scheduleInstance =
  si_recurringScheduleId :: "objectId option"
  si_overrideId :: "objectId option"
  si_classId :: "objectId option"
  si_teacherId :: "objectId option"
  si_scheduledDate :: "date option"
  si_startTime :: "string option"
  si_endTime :: "string option"
  si_roomNumber :: "string option"
  si_sessionType :: "string option"
  si_status :: string
  si_isOverridden :: bool
  si_originalStartTime :: "string option"
  si_originalEndTime :: "string option"
  si_originalRoomNumber :: "string option"
  si_overrideReason :: "string option"
  si_attendanceSessionId :: "objectId option"
  si_attendanceMarked :: bool
  si_attendanceCount :: int
  si_location :: geoPoint

definition weekDays :: "string list" where
  "weekDays = [''Monday'', ''Tuesday'', ''Wednesday'', ''Thursday'', ''Friday'', ''Saturday'']"

definition recurringSessionTypes :: "string list" where
  "recurringSessionTypes = [''lecture'', ''lab'', ''project'', ''tutorial'']"

definition frequencies :: "string list" where
  "frequencies = [''weekly'', ''biweekly'']"

definition overrideTypes :: "string list" where
  "overrideTypes = [''cancel'', ''reschedule'', ''modify'']"

definition instanceStatuses :: "string list" where
  "instanceStatuses = [''scheduled'', ''cancelled'', ''completed'', ''ongoing'']"

definition validateRecurringSchedule :: "recurringSchedule \<Rightarrow> bool" where
  "validateRecurringSchedule t =
     (requiredPath (rs_classId t) \<and> requiredPath (rs_teacherId t)
      \<and> requiredString (rs_title t)
      \<and> requiredString (rs_sessionType t) \<and> enumString recurringSessionTypes (rs_sessionType t)
      \<and> requiredString (rs_dayOfWeek t) \<and> enumString weekDays (rs_dayOfWeek t)
      \<and> requiredString (rs_startTime t) \<and> requiredString (rs_endTime t)
      \<and> requiredString (rs_roomNumber t)
      \<and> requiredString (rs_semester t) \<and> requiredString (rs_academicYear t)
      \<and> requiredPath (rs_semesterStartDate t) \<and> requiredPath (rs_semesterEndDate t)
      \<and> rs_frequency t \<in> set frequencies
      \<and> gp_type (rs_location t) = ''Point'')"

definition validateScheduleOverride :: "scheduleOverride \<Rightarrow> bool" where
  "validateScheduleOverride ov =
     (requiredPath (ov_recurringScheduleId ov) \<and> requiredPath (ov_classId ov)
      \<and> requiredPath (ov_teacherId ov) \<and> requiredPath (ov_overrideDate ov)
      \<and> requiredString (ov_overrideType ov) \<and> enumString overrideTypes (ov_overrideType ov)
      \<and> requiredString (ov_reason ov))"

definition validateScheduleInstance :: "scheduleInstance \<Rightarrow> bool" where
  "validateScheduleInstance i =
     (requiredPath (si_recurringScheduleId i) \<and> requiredPath (si_classId i)
      \<and> requiredPath (si_teacherId i) \<and> requiredPath (si_scheduledDate i)
      \<and> requiredString (si_startTime i) \<and> requiredString (si_endTime i)
      \<and> requiredString (si_roomNumber i) \<and> requiredString (si_sessionType i)
      \<and> si_status i \<in> set instanceStatuses
      \<and> gp_type (si_location i) = ''Point'')"

text \<open>
  Writing a new override to its collection (\<open>Model.create\<close>): the document is validated
  and inserted. The collection's indexes are \<open>{recurringScheduleId, overrideDate}\<close> and
  \<open>{teacherId, overrideDate}\<close>, neither declared \<open>unique\<close>, so the only key the
  store checks is \<open>_id\<close>.
\<close>

datatype write_error = SchemaValidationFailed | DuplicateKey

definition insertOverride ::
    "scheduleOverride list \<Rightarrow> scheduleOverride \<Rightarrow> write_error + scheduleOverride list" where
  "insertOverride store ov =
     (if \<not> validateScheduleOverride ov then Inl SchemaValidationFailed
      else if ov_id ov \<in> set (map ov_id store) then Inl DuplicateKey
      else Inr (store @ [ov]))"

text \<open>The active overrides of a store for a (template, date) key.\<close>

definition activeOverridesFor ::
    "scheduleOverride list \<Rightarrow> objectId \<Rightarrow> date \<Rightarrow> scheduleOverride list" where
  "activeOverridesFor store tid d =
     filter (\<lambda>ov. ov_isActive ov \<and> ov_recurringScheduleId ov = Some tid
                  \<and> ov_overrideDate ov = Some d) store"

definition singleActiveOverride :: "scheduleOverride list \<Rightarrow> bool" where
  "singleActiveOverride store =
     list_all
       (\<lambda>ov. case (ov_recurringScheduleId ov, ov_overrideDate ov) of
                (Some tid, Some d) \<Rightarrow> length (activeOverridesFor store tid d) \<le> 1
              | _ \<Rightarrow> True)
       store"

section \<open>Override Resolver and Recurrence Expander\<close>

text \<open>
  Modelled from the spec: the Override Resolver (\<open>Resolve\<close> and its checked write) is not
  among the repository's model files. \<open>Resolve(templateId, date)\<close> returns the active
  override keyed by (template, date), or none.
\<close>

definition Resolve :: "scheduleOverride list \<Rightarrow> objectId \<Rightarrow> date \<Rightarrow> scheduleOverride option" where
  "Resolve store tid d =
     find (\<lambda>ov. ov_isActive ov \<and> ov_recurringScheduleId ov = Some tid
                \<and> ov_overrideDate ov = Some d) store"

text \<open>
  Modelled from the spec: the Resolver's write, which rejects a second active override
  for the same key with a conflict error before anything is written, and otherwise
  writes to the collection.
\<close>

definition addOverride ::
    "scheduleOverride list \<Rightarrow> scheduleOverride \<Rightarrow> error + scheduleOverride list" where
  "addOverride store ov =
     (case (ov_recurringScheduleId ov, ov_overrideDate ov) of
        (Some tid, Some d) \<Rightarrow>
          (if ov_isActive ov \<and> Resolve store tid d \<noteq> None then Inl ConflictError
           else (case insertOverride store ov of
                   Inl _ \<Rightarrow> Inl ValidationError
                 | Inr store' \<Rightarrow> Inr store'))
      | _ \<Rightarrow> Inl ValidationError)"

text \<open>
  Calendar arithmetic on day numbers: day 0 (1970-01-01) was a Thursday; the weekday is
  numbered as JavaScript's \<open>getDay\<close> does, 0 for Sunday to 6 for Saturday.
\<close>

definition weekdayOf :: "date \<Rightarrow> int" where
  "weekdayOf d = (d + 4) mod 7"

definition dayIndex :: "string \<Rightarrow> int option" where
  "dayIndex s =
     (if s = ''Sunday'' then Some 0 else if s = ''Monday'' then Some 1
      else if s = ''Tuesday'' then Some 2 else if s = ''Wednesday'' then Some 3
      else if s = ''Thursday'' then Some 4 else if s = ''Friday'' then Some 5
      else if s = ''Saturday'' then Some 6 else None)"

text \<open>
  Modelled from the spec: the Recurrence Expander is not among the repository's model
  files. The candidate dates are the dates of
  \<open>[fromDate, toDate] \<inter> [semesterStartDate, semesterEndDate]\<close> on the template's weekday,
  stepping by 7 days (weekly) or 14 days (biweekly) from the first matching date on or
  after \<open>semesterStartDate\<close>, in ascending order.
\<close>

definition stepDays :: "recurringSchedule \<Rightarrow> int" where
  "stepDays t = (if rs_frequency t = ''biweekly'' then 14 else 7)"

definition firstMatch :: "date \<Rightarrow> int \<Rightarrow> date" where
  "firstMatch start w = start + (w - weekdayOf start) mod 7"

definition candidateDates :: "recurringSchedule \<Rightarrow> date \<Rightarrow> date \<Rightarrow> date list" where
  "candidateDates t fromDate toDate =
     (case (rs_semesterStartDate t, rs_semesterEndDate t, Option.bind (rs_dayOfWeek t) dayIndex) of
        (Some s, Some e, Some w) \<Rightarrow>
          (let first = firstMatch s w;
               n = (if e < first then 0 else nat ((e - first) div stepDays t) + 1)
           in filter (\<lambda>d. fromDate \<le> d \<and> d \<le> toDate)
                (map (\<lambda>k. first + int k * stepDays t) [0..<n]))
      | _ \<Rightarrow> [])"

text \<open>
  Modelled from the spec: the Instance for one candidate date. Without an override the
  template's time, room and type are used verbatim with status \<open>scheduled\<close>; \<open>cancel\<close>
  gives status \<open>cancelled\<close> with \<open>isOverridden\<close>; \<open>reschedule\<close> takes date, time and room
  from the override's \<open>new*\<close> fields, falling back to the template's, and captures the
  originals; \<open>modify\<close> does the same but keeps the template's date. An override of no
  known kind is an expansion failure for that date alone.
\<close>

definition baseInstance :: "recurringSchedule \<Rightarrow> date \<Rightarrow> scheduleInstance" where
  "baseInstance t d =
     \<lparr>si_recurringScheduleId = Some (rs_id t), si_overrideId = None,
      si_classId = rs_classId t, si_teacherId = rs_teacherId t,
      si_scheduledDate = Some d,
      si_startTime = rs_startTime t, si_endTime = rs_endTime t,
      si_roomNumber = rs_roomNumber t, si_sessionType = rs_sessionType t,
      si_status = ''scheduled'', si_isOverridden = False,
      si_originalStartTime = None, si_originalEndTime = None,
      si_originalRoomNumber = None, si_overrideReason = None,
      si_attendanceSessionId = None, si_attendanceMarked = False, si_attendanceCount = 0,
      si_location = rs_location t\<rparr>"

definition orElse :: "'a option \<Rightarrow> 'a option \<Rightarrow> 'a option" where
  "orElse a b = (case a of None \<Rightarrow> b | Some x \<Rightarrow> Some x)"

definition overriddenInstance ::
    "recurringSchedule \<Rightarrow> date \<Rightarrow> scheduleOverride \<Rightarrow> scheduleInstance" where
  "overriddenInstance t d ov =
     (baseInstance t d)
       \<lparr>si_overrideId := Some (ov_id ov),
        si_startTime := orElse (ov_newStartTime ov) (rs_startTime t),
        si_endTime := orElse (ov_newEndTime ov) (rs_endTime t),
        si_roomNumber := orElse (ov_newRoomNumber ov) (rs_roomNumber t),
        si_isOverridden := True,
        si_originalStartTime := rs_startTime t,
        si_originalEndTime := rs_endTime t,
        si_originalRoomNumber := rs_roomNumber t,
        si_overrideReason := ov_reason ov\<rparr>"

definition instanceFor ::
    "recurringSchedule \<Rightarrow> date \<Rightarrow> scheduleOverride option \<Rightarrow> scheduleInstance option" where
  "instanceFor t d r =
     (case r of
        None \<Rightarrow> Some (baseInstance t d)
      | Some ov \<Rightarrow>
          (if ov_overrideType ov = Some ''cancel'' then
             Some ((baseInstance t d)
                     \<lparr>si_overrideId := Some (ov_id ov), si_status := ''cancelled'',
                      si_isOverridden := True, si_overrideReason := ov_reason ov\<rparr>)
           else if ov_overrideType ov = Some ''reschedule'' then
             Some ((overriddenInstance t d ov)
                     \<lparr>si_scheduledDate := orElse (ov_newDate ov) (Some d)\<rparr>)
           else if ov_overrideType ov = Some ''modify'' then
             Some (overriddenInstance t d ov)
           else None))"

text \<open>
  Modelled from the spec: \<open>Expand(template, fromDate, toDate)\<close>, the ordered sequence of
  the Instances of the candidate dates, each resolved against the Override Resolver; a
  date whose expansion fails is left out and the remaining dates are still expanded.
\<close>

definition Expand ::
    "scheduleOverride list \<Rightarrow> recurringSchedule \<Rightarrow> date \<Rightarrow> date \<Rightarrow> scheduleInstance list" where
  "Expand overrides t fromDate toDate =
     List.map_filter (\<lambda>d. instanceFor t d (Resolve overrides (rs_id t) d))
       (candidateDates t fromDate toDate)"

text \<open>
  Modelled from the spec: materialising the expanded Instances in the Instance store,
  with a lookup by (template, date) before the insert. An Instance found under the key
  with the same override binding is kept; one with a different binding is superseded
  by the newly resolved Instance; otherwise the new Instance is inserted.
\<close>

definition instanceKey :: "scheduleInstance \<Rightarrow> objectId option \<times> date option" where
  "instanceKey i = (si_recurringScheduleId i, si_scheduledDate i)"

fun upsertInstance :: "scheduleInstance \<Rightarrow> scheduleInstance list \<Rightarrow> scheduleInstance list" where
  "upsertInstance i [] = [i]"
| "upsertInstance i (x # xs) =
     (if instanceKey x = instanceKey i
      then (if si_overrideId x = si_overrideId i then x # xs else i # xs)
      else x # upsertInstance i xs)"

text \<open>Modelled from the spec: the Instance stored under a key, and the Instance that
  stands under the key of a newly resolved Instance \<open>i\<close> once \<open>i\<close> has been
  materialised.\<close>

definition lookupInstance ::
    "objectId option \<times> date option \<Rightarrow> scheduleInstance list \<Rightarrow> scheduleInstance option" where
  "lookupInstance k store = find (\<lambda>x. instanceKey x = k) store"

definition supersede :: "scheduleInstance \<Rightarrow> scheduleInstance option \<Rightarrow> scheduleInstance option" where
  "supersede i found =
     (case found of
        None \<Rightarrow> Some i
      | Some x \<Rightarrow> if si_overrideId x = si_overrideId i then Some x else Some i)"

text \<open>Modelled from the spec: the expanded Instances are materialised one by one, in
  their order; \<open>expandInto\<close> is the expansion of a range into a store.\<close>

definition materialize :: "scheduleInstance list \<Rightarrow> scheduleInstance list \<Rightarrow> scheduleInstance list" where
  "materialize instances store = fold upsertInstance instances store"

definition expandInto ::
    "scheduleOverride list \<Rightarrow> recurringSchedule \<Rightarrow> date \<Rightarrow> date
       \<Rightarrow> scheduleInstance list \<Rightarrow> scheduleInstance list" where
  "expandInto overrides t fromDate toDate store =
     materialize (Expand overrides t fromDate toDate) store"

section \<open>Schedule (scheduleModel.js) and the Merge Engine\<close>

record originalSlot =
  os_startTime :: "string option"
  os_endTime :: "string option"
  os_timeSlotId :: "string option"

record schedule =
  sc_classId :: "objectId option"
  sc_teacherId :: "objectId option"
  sc_sessionType :: "string option"
  sc_dayOfWeek :: "string option"
  sc_startTime :: "string option"
  sc_endTime :: "string option"
  sc_roomNumber :: "string option"
  sc_isActive :: bool
  sc_semester :: "string option"
  sc_academicYear :: "string option"
  sc_isMerged :: bool
  sc_mergedTimeSlots :: "string list"
  sc_customLabel :: "string option"
  sc_originalSlots :: "originalSlot list"
  sc_mergedSessionRange :: "string option"
  sc_linkedMergedSchedule :: "objectId option"
  sc_templateSource :: string
  sc_sourceRecurringScheduleId :: "objectId option"
  sc_location :: geoPoint

definition scheduleSessionTypes :: "string list" where
  "scheduleSessionTypes = [''lecture'', ''lab'', ''project'']"

definition templateSources :: "string list" where
  "templateSources = [''recurring'', ''manual'']"

definition validateSchedule :: "schedule \<Rightarrow> bool" where
  "validateSchedule e =
     (requiredPath (sc_classId e) \<and> requiredPath (sc_teacherId e)
      \<and> requiredString (sc_sessionType e) \<and> enumString scheduleSessionTypes (sc_sessionType e)
      \<and> requiredString (sc_dayOfWeek e) \<and> enumString weekDays (sc_dayOfWeek e)
      \<and> requiredString (sc_startTime e) \<and> requiredString (sc_endTime e)
      \<and> requiredString (sc_roomNumber e)
      \<and> requiredString (sc_semester e) \<and> requiredString (sc_academicYear e)
      \<and> sc_templateSource e \<in> set templateSources
      \<and> gp_type (sc_location e) = ''Point'')"

text \<open>
  Modelled from the spec: the Merge Engine is not among the repository's model files.
  A slot binding is a Schedule entry together with the TimeSlot it occupies.
  \<open>Merge\<close> requires a non-empty sequence whose entries have their times, are
  chronologically contiguous (each start equals the previous end) and share day, room,
  teacher and class; it produces one entry spanning \<open>[first.start, last.end)\<close>, with
  each original slot's (start, end, id) captured and \<open>isMerged\<close> set.
\<close>

record slotBinding =
  sb_timeSlotId :: "string option"
  sb_entry :: schedule

fun contiguous :: "slotBinding list \<Rightarrow> bool" where
  "contiguous (x # y # rest) =
     (sc_startTime (sb_entry y) = sc_endTime (sb_entry x) \<and> contiguous (y # rest))"
| "contiguous _ = True"

definition sameContext :: "schedule \<Rightarrow> schedule \<Rightarrow> bool" where
  "sameContext a b =
     (sc_dayOfWeek a = sc_dayOfWeek b \<and> sc_roomNumber a = sc_roomNumber b
      \<and> sc_teacherId a = sc_teacherId b \<and> sc_classId a = sc_classId b)"

definition captureSlot :: "slotBinding \<Rightarrow> originalSlot" where
  "captureSlot b =
     \<lparr>os_startTime = sc_startTime (sb_entry b), os_endTime = sc_endTime (sb_entry b),
      os_timeSlotId = sb_timeSlotId b\<rparr>"

definition rangeString :: "string \<Rightarrow> string \<Rightarrow> string" where
  "rangeString a b = a @ ''-'' @ b"

text \<open>Modelled from the spec: \<open>Merge(slots, label)\<close>, failing with a validation error
  when a precondition does not hold.\<close>

definition Merge :: "slotBinding list \<Rightarrow> string \<Rightarrow> error + schedule" where
  "Merge slots label =
     (case slots of
        [] \<Rightarrow> Inl ValidationError
      | first # rest \<Rightarrow>
          (case (sc_startTime (sb_entry first), sc_endTime (sb_entry (last slots))) of
             (Some a, Some b) \<Rightarrow>
               (if contiguous slots
                   \<and> list_all (\<lambda>x. sc_startTime (sb_entry x) \<noteq> None
                                     \<and> sc_endTime (sb_entry x) \<noteq> None) slots
                   \<and> list_all (\<lambda>x. sameContext (sb_entry first) (sb_entry x)) rest
                then Inr ((sb_entry first)
                            \<lparr>sc_startTime := Some a, sc_endTime := Some b,
                             sc_isMerged := True,
                             sc_mergedTimeSlots :=
                               concat (map (\<lambda>x. case sb_timeSlotId x of None \<Rightarrow> [] | Some i \<Rightarrow> [i]) slots),
                             sc_customLabel := Some label,
                             sc_originalSlots := map captureSlot slots,
                             sc_mergedSessionRange := Some (rangeString a b)\<rparr>)
                else Inl ValidationError)
           | _ \<Rightarrow> Inl ValidationError))"

text \<open>
  Modelled from the spec: \<open>Split\<close> reconstructs the original entries strictly from
  \<open>originalSlots\<close>, and fails if \<open>originalSlots\<close> is empty or the entry is not marked
  merged. Each reconstructed entry has the merged entry's context, the slot's own
  start and end, and no merge metadata.
\<close>

definition restoreSlot :: "schedule \<Rightarrow> originalSlot \<Rightarrow> slotBinding" where
  "restoreSlot m slot =
     \<lparr>sb_timeSlotId = os_timeSlotId slot,
      sb_entry = m\<lparr>sc_startTime := os_startTime slot, sc_endTime := os_endTime slot,
                   sc_isMerged := False, sc_mergedTimeSlots := [],
                   sc_customLabel := None, sc_originalSlots := [],
                   sc_mergedSessionRange := None\<rparr>\<rparr>"

definition Split :: "schedule \<Rightarrow> error + slotBinding list" where
  "Split m =
     (if \<not> sc_isMerged m \<or> sc_originalSlots m = [] then Inl ValidationError
      else Inr (map (restoreSlot m) (sc_originalSlots m)))"

section \<open>QRCodeSession (qrCodeSessionModel.js) and the Session Manager\<close>

record coordinates =
  co_latitude :: "real option"
  co_longitude :: "real option"

record qrPayload =
  qp_classNumber :: "string option"
  qp_subjectCode :: "string option"
  qp_subjectName :: "string option"
  qp_classYear :: "string option"
  qp_semester :: "string option"
  qp_division :: "string option"
  qp_timestamp :: "timestamp option"
  qp_coordinates :: coordinates
  qp_sessionId :: "string option"
  qp_token :: "string option"

record qrCodeSession =
  qs_classId :: "objectId option"
  qs_scheduleId :: "objectId option"
  qs_teacherId :: "objectId option"
  qs_sessionId :: "string option"
  qs_currentToken :: "string option"
  qs_tokenGeneratedAt :: timestamp
  qs_sessionExpiresAt :: "timestamp option"
  qs_qrPayload :: qrPayload
  qs_isActive :: bool
  qs_createdAt :: timestamp

text \<open>
  The schema's validators: \<open>classId\<close>, \<open>teacherId\<close>, \<open>sessionId\<close>, \<open>currentToken\<close> and
  \<open>sessionExpiresAt\<close> are required; no path of \<open>qrPayload\<close> is.
\<close>

definition validateQRCodeSession :: "qrCodeSession \<Rightarrow> bool" where
  "validateQRCodeSession s =
     (requiredPath (qs_classId s) \<and> requiredPath (qs_teacherId s)
      \<and> requiredString (qs_sessionId s) \<and> requiredString (qs_currentToken s)
      \<and> requiredPath (qs_sessionExpiresAt s))"

text \<open>
  Writing a new session to its collection: validation, then the unique index on
  \<open>sessionId\<close>.
\<close>

definition insertSession ::
    "qrCodeSession list \<Rightarrow> qrCodeSession \<Rightarrow> write_error + qrCodeSession list" where
  "insertSession store s =
     (if \<not> validateQRCodeSession s then Inl SchemaValidationFailed
      else if qs_sessionId s \<in> set (map qs_sessionId store) then Inl DuplicateKey
      else Inr (store @ [s]))"

text \<open>The ten paths of the payload snapshot are all present.\<close>

definition payloadComplete :: "qrPayload \<Rightarrow> bool" where
  "payloadComplete p =
     (qp_classNumber p \<noteq> None \<and> qp_subjectCode p \<noteq> None \<and> qp_subjectName p \<noteq> None
      \<and> qp_classYear p \<noteq> None \<and> qp_semester p \<noteq> None \<and> qp_division p \<noteq> None
      \<and> qp_timestamp p \<noteq> None
      \<and> co_latitude (qp_coordinates p) \<noteq> None \<and> co_longitude (qp_coordinates p) \<noteq> None
      \<and> qp_sessionId p \<noteq> None \<and> qp_token p \<noteq> None)"

text \<open>
  The TTL index \<open>{sessionExpiresAt: 1}\<close> with \<open>expireAfterSeconds: 60\<close> and
  \<open>partialFilterExpression: {isActive: false}\<close>: only documents with \<open>isActive: false\<close>
  are in the index, and one pass of the database's TTL monitor at time \<open>now\<close> removes
  those of them whose \<open>sessionExpiresAt\<close> lies at least 60 seconds back.
\<close>

definition expireAfterSeconds :: int where
  "expireAfterSeconds = 60"

definition ttlExpired :: "timestamp \<Rightarrow> qrCodeSession \<Rightarrow> bool" where
  "ttlExpired now s =
     (qs_isActive s = False
      \<and> (case qs_sessionExpiresAt s of
            None \<Rightarrow> False
          | Some e \<Rightarrow> e + expireAfterSeconds * 1000 \<le> now))"

definition ttlMonitorPass :: "timestamp \<Rightarrow> qrCodeSession list \<Rightarrow> qrCodeSession list" where
  "ttlMonitorPass now store = filter (\<lambda>s. \<not> ttlExpired now s) store"

text \<open>
  Modelled from the spec: the retention sweep of the spec's design notes, a function of
  a grace period (in milliseconds) and a predicate on the session, which removes the
  sessions that satisfy the predicate and whose expiry lies at least the grace period
  back.
\<close>

definition isClosed :: "qrCodeSession \<Rightarrow> bool" where
  "isClosed s = (\<not> qs_isActive s)"

definition retentionSweep ::
    "int \<Rightarrow> (qrCodeSession \<Rightarrow> bool) \<Rightarrow> timestamp \<Rightarrow> qrCodeSession list \<Rightarrow> qrCodeSession list" where
  "retentionSweep grace eligible now store =
     filter (\<lambda>s. \<not> (eligible s
                    \<and> (case qs_sessionExpiresAt s of
                          None \<Rightarrow> False
                        | Some e \<Rightarrow> e + grace \<le> now))) store"

text \<open>
  Modelled from the spec: the Session Manager is not among the repository's model
  files. The store is the session collection; a session is addressed by its
  \<open>sessionId\<close>.
\<close>

definition findSession :: "qrCodeSession list \<Rightarrow> string \<Rightarrow> qrCodeSession option" where
  "findSession store sid = find (\<lambda>s. qs_sessionId s = Some sid) store"

definition updateSession ::
    "string \<Rightarrow> (qrCodeSession \<Rightarrow> qrCodeSession) \<Rightarrow> qrCodeSession list \<Rightarrow> qrCodeSession list" where
  "updateSession sid f store = map (\<lambda>s. if qs_sessionId s = Some sid then f s else s) store"

text \<open>
  Modelled from the spec: \<open>Create\<close>. The session id and the initial token are generated
  outside (they are random) and passed in, as are the denormalised class and subject
  texts of the snapshot; \<open>tokenGeneratedAt = now\<close>,
  \<open>sessionExpiresAt = now + sessionDuration\<close>, \<open>isActive = true\<close>.
\<close>

record classSnapshot =
  cs_classNumber :: string
  cs_subjectCode :: string
  cs_subjectName :: string
  cs_classYear :: string
  cs_semester :: string
  cs_division :: string

text \<open>Modelled from the spec: the session that \<open>Create\<close> builds, with its payload
  snapshot.\<close>

definition newSession ::
    "int \<Rightarrow> classSnapshot \<Rightarrow> objectId \<Rightarrow> objectId option \<Rightarrow> objectId \<Rightarrow> real \<times> real
       \<Rightarrow> string \<Rightarrow> string \<Rightarrow> timestamp \<Rightarrow> qrCodeSession" where
  "newSession sessionDuration snap classId scheduleId teacherId location sid token now =
     \<lparr>qs_classId = Some classId, qs_scheduleId = scheduleId, qs_teacherId = Some teacherId,
      qs_sessionId = Some sid, qs_currentToken = Some token,
      qs_tokenGeneratedAt = now, qs_sessionExpiresAt = Some (now + sessionDuration),
      qs_qrPayload =
        \<lparr>qp_classNumber = Some (cs_classNumber snap), qp_subjectCode = Some (cs_subjectCode snap),
         qp_subjectName = Some (cs_subjectName snap), qp_classYear = Some (cs_classYear snap),
         qp_semester = Some (cs_semester snap), qp_division = Some (cs_division snap),
         qp_timestamp = Some now,
         qp_coordinates = \<lparr>co_latitude = Some (fst location), co_longitude = Some (snd location)\<rparr>,
         qp_sessionId = Some sid, qp_token = Some token\<rparr>,
      qs_isActive = True, qs_createdAt = now\<rparr>"

text \<open>Modelled from the spec: \<open>Create\<close> writes the new session to the collection.\<close>

definition Create ::
    "int \<Rightarrow> classSnapshot \<Rightarrow> objectId \<Rightarrow> objectId option \<Rightarrow> objectId \<Rightarrow> real \<times> real
       \<Rightarrow> string \<Rightarrow> string \<Rightarrow> timestamp \<Rightarrow> qrCodeSession list \<Rightarrow> error + qrCodeSession list" where
  "Create sessionDuration snap classId scheduleId teacherId location sid token now store =
     (case insertSession store
             (newSession sessionDuration snap classId scheduleId teacherId location sid token now) of
        Inl SchemaValidationFailed \<Rightarrow> Inl ValidationError
      | Inl DuplicateKey \<Rightarrow> Inl ConflictError
      | Inr store' \<Rightarrow> Inr store')"

text \<open>
  Modelled from the spec: \<open>Rotate\<close>, run while \<open>now < sessionExpiresAt\<close>: it replaces
  \<open>currentToken\<close> by the freshly generated token, updates \<open>tokenGeneratedAt\<close> and
  refreshes the token of the embedded payload. Past the expiry nothing is rotated.
\<close>

definition beforeExpiry :: "timestamp \<Rightarrow> qrCodeSession \<Rightarrow> bool" where
  "beforeExpiry now s = (case qs_sessionExpiresAt s of None \<Rightarrow> False | Some e \<Rightarrow> now < e)"

definition rotateToken :: "string \<Rightarrow> timestamp \<Rightarrow> qrCodeSession \<Rightarrow> qrCodeSession" where
  "rotateToken token now s =
     s\<lparr>qs_currentToken := Some token, qs_tokenGeneratedAt := now,
       qs_qrPayload := (qs_qrPayload s)\<lparr>qp_token := Some token\<rparr>\<rparr>"

text \<open>Modelled from the spec: the session with the three paths that a rotation writes
  blanked out; what is left is everything a rotation must not touch.\<close>

definition outsideRotation :: "qrCodeSession \<Rightarrow> qrCodeSession" where
  "outsideRotation s =
     s\<lparr>qs_currentToken := None, qs_tokenGeneratedAt := 0,
       qs_qrPayload := (qs_qrPayload s)\<lparr>qp_token := None\<rparr>\<rparr>"

text \<open>Modelled from the spec: \<open>Rotate\<close> on a session, given the fresh token and the time
  of the rotation.\<close>

definition Rotate :: "string \<Rightarrow> timestamp \<Rightarrow> qrCodeSession \<Rightarrow> error + qrCodeSession" where
  "Rotate token now s =
     (if beforeExpiry now s then Inr (rotateToken token now s) else Inl SessionExpiredError)"

text \<open>Modelled from the spec: a run of rotations, each with its fresh token and its
  time; it stops at the first failure.\<close>

fun rotations :: "(string \<times> timestamp) list \<Rightarrow> qrCodeSession \<Rightarrow> error + qrCodeSession" where
  "rotations [] s = Inr s"
| "rotations ((token, now) # rest) s =
     (case Rotate token now s of Inl e \<Rightarrow> Inl e | Inr s' \<Rightarrow> rotations rest s')"

text \<open>Modelled from the spec: \<open>Rotate(sessionId)\<close> on the session collection.\<close>

definition RotateById ::
    "string \<Rightarrow> string \<Rightarrow> timestamp \<Rightarrow> qrCodeSession list \<Rightarrow> error + qrCodeSession list" where
  "RotateById sid token now store =
     (case findSession store sid of
        None \<Rightarrow> Inl NotFoundError
      | Some s \<Rightarrow>
          (case Rotate token now s of
             Inl e \<Rightarrow> Inl e
           | Inr _ \<Rightarrow> Inr (updateSession sid (rotateToken token now) store)))"

text \<open>Modelled from the spec: \<open>Close\<close> sets \<open>isActive = false\<close> and does not delete the
  record.\<close>

definition Close :: "string \<Rightarrow> qrCodeSession list \<Rightarrow> error + qrCodeSession list" where
  "Close sid store =
     (case findSession store sid of
        None \<Rightarrow> Inl NotFoundError
      | Some _ \<Rightarrow> Inr (updateSession sid (\<lambda>s. s\<lparr>qs_isActive := False\<rparr>) store))"

text \<open>
  Modelled from the spec: \<open>ValidateScan\<close>. The great-circle distance function and the
  radius are configuration. The session's location is the teacher's coordinates of the
  payload snapshot. The expiry is checked first, since a session past
  \<open>sessionExpiresAt\<close> is terminal regardless of \<open>isActive\<close>; then the token, the range
  and the active flag, each with its own rejection reason.
\<close>

definition withinRadius ::
    "(real \<times> real \<Rightarrow> real \<times> real \<Rightarrow> real) \<Rightarrow> real \<Rightarrow> qrCodeSession \<Rightarrow> real \<times> real \<Rightarrow> bool" where
  "withinRadius distance radius s studentLocation =
     (case (co_latitude (qp_coordinates (qs_qrPayload s)),
            co_longitude (qp_coordinates (qs_qrPayload s))) of
        (Some lat, Some lon) \<Rightarrow> distance (lat, lon) studentLocation \<le> radius
      | _ \<Rightarrow> False)"

text \<open>Modelled from the spec: the checks of \<open>ValidateScan\<close> on the session found, in
  the order given above.\<close>

definition checkScan ::
    "(real \<times> real \<Rightarrow> real \<times> real \<Rightarrow> real) \<Rightarrow> real \<Rightarrow> qrCodeSession
       \<Rightarrow> string \<Rightarrow> real \<times> real \<Rightarrow> timestamp \<Rightarrow> error + unit" where
  "checkScan distance radius s submittedToken studentLocation now =
     (if \<not> beforeExpiry now s then Inl SessionExpiredError
      else if qs_currentToken s \<noteq> Some submittedToken then Inl InvalidTokenError
      else if \<not> withinRadius distance radius s studentLocation then Inl OutOfRangeError
      else if \<not> qs_isActive s then Inl InactiveSessionError
      else Inr ())"

text \<open>Modelled from the spec: \<open>ValidateScan\<close> on the session collection; an unknown
  session id is a not-found error.\<close>

definition ValidateScan ::
    "(real \<times> real \<Rightarrow> real \<times> real \<Rightarrow> real) \<Rightarrow> real \<Rightarrow> qrCodeSession list
       \<Rightarrow> string \<Rightarrow> string \<Rightarrow> real \<times> real \<Rightarrow> timestamp \<Rightarrow> error + unit" where
  "ValidateScan distance radius store sid submittedToken studentLocation now =
     (case findSession store sid of
        None \<Rightarrow> Inl NotFoundError
      | Some s \<Rightarrow> checkScan distance radius s submittedToken studentLocation now)"

section \<open>Example documents\<close>

definition lateSlot :: timeSlot where
  "lateSlot =
     \<lparr>ts_name = Some ''2nd Period'', ts_startTime = Some ''10:00'', ts_endTime = Some ''09:00'',
      ts_type = Some ''lecture'', ts_duration = None, ts_isActive = True, ts_order = Some 2,
      ts_createdBy = None\<rparr>"

text \<open>
  An engine for the examples. It reads the date-time texts that the template makes of
  an \<open>"HH:MM"\<close> time, as local time counted from the midnight of 2000-01-01, takes
  every other text as an Invalid Date, and divides exactly. The theorems are about
  every engine.
\<close>

definition clockEngine :: jsEngine where
  "clockEngine =
     \<lparr>en_dateValue =
        (\<lambda>text. if take 11 text = ''2000-01-01T'' \<and> drop 16 text = '':00''
                then map_option (\<lambda>m. int m * 60000) (clockMinutes (take 5 (drop 11 text)))
                else None),
      en_divide = (\<lambda>a b. real_of_int a / real_of_int b)\<rparr>"

definition garbledSlot :: timeSlot where
  "garbledSlot =
     \<lparr>ts_name = Some ''3rd Period'', ts_startTime = Some ''abc'', ts_endTime = Some ''10:00'',
      ts_type = Some ''lecture'', ts_duration = Some 60, ts_isActive = True, ts_order = Some 3,
      ts_createdBy = None\<rparr>"

definition mondayTemplate :: recurringSchedule where
  "mondayTemplate =
     \<lparr>rs_id = 1, rs_classId = Some 10, rs_teacherId = Some 20, rs_title = Some ''CS201 - BDA Lecture'',
      rs_sessionType = Some ''lecture'', rs_dayOfWeek = Some ''Monday'',
      rs_startTime = Some ''09:00'', rs_endTime = Some ''10:00'', rs_roomNumber = Some ''C-204'',
      rs_semester = Some ''VII'', rs_academicYear = Some ''2025-26'',
      rs_semesterStartDate = Some 20270, rs_semesterEndDate = Some 20300,
      rs_isRecurring = True, rs_frequency = ''weekly'', rs_isActive = True,
      rs_description = None, rs_notes = None, rs_location = defaultLocation\<rparr>"

definition sundayReschedule :: scheduleOverride where
  "sundayReschedule =
     \<lparr>ov_id = 5, ov_recurringScheduleId = Some 1, ov_classId = Some 10, ov_teacherId = Some 20,
      ov_overrideDate = Some 20283, ov_overrideType = Some ''reschedule'',
      ov_newStartTime = Some ''11:00'', ov_newEndTime = None, ov_newRoomNumber = None,
      ov_newDate = Some 20282, ov_reason = Some ''Makeup class'', ov_notes = None,
      ov_isActive = True\<rparr>"

definition labEntry :: schedule where
  "labEntry =
     \<lparr>sc_classId = Some 10, sc_teacherId = Some 20, sc_sessionType = Some ''lab'',
      sc_dayOfWeek = Some ''Saturday'', sc_startTime = Some ''09:00'', sc_endTime = Some ''10:00'',
      sc_roomNumber = Some ''E-201'', sc_isActive = True, sc_semester = Some ''VII'',
      sc_academicYear = Some ''2025-26'', sc_isMerged = False, sc_mergedTimeSlots = [],
      sc_customLabel = None, sc_originalSlots = [], sc_mergedSessionRange = None,
      sc_linkedMergedSchedule = None, sc_templateSource = ''manual'',
      sc_sourceRecurringScheduleId = None, sc_location = defaultLocation\<rparr>"

definition holidayCancel :: scheduleOverride where
  "holidayCancel =
     \<lparr>ov_id = 6, ov_recurringScheduleId = Some 1, ov_classId = Some 10, ov_teacherId = Some 20,
      ov_overrideDate = Some 20283, ov_overrideType = Some ''cancel'',
      ov_newStartTime = None, ov_newEndTime = None, ov_newRoomNumber = None,
      ov_newDate = None, ov_reason = Some ''Holiday'', ov_notes = None,
      ov_isActive = True\<rparr>"

definition emptyPayload :: qrPayload where
  "emptyPayload =
     \<lparr>qp_classNumber = None, qp_subjectCode = None, qp_subjectName = None, qp_classYear = None,
      qp_semester = None, qp_division = None, qp_timestamp = None,
      qp_coordinates = \<lparr>co_latitude = None, co_longitude = None\<rparr>,
      qp_sessionId = None, qp_token = None\<rparr>"

definition bareSession :: qrCodeSession where
  "bareSession =
     \<lparr>qs_classId = Some 10, qs_scheduleId = None, qs_teacherId = Some 20,
      qs_sessionId = Some ''S-0'', qs_currentToken = Some ''tok-0'',
      qs_tokenGeneratedAt = 0, qs_sessionExpiresAt = Some 0,
      qs_qrPayload = emptyPayload, qs_isActive = False, qs_createdAt = 0\<rparr>"

definition cs201 :: classSnapshot where
  "cs201 =
     \<lparr>cs_classNumber = ''7'', cs_subjectCode = ''CS201'', cs_subjectName = ''BDA'',
      cs_classYear = ''2025-26'', cs_semester = ''VII'', cs_division = ''A''\<rparr>"

definition liveSession :: qrCodeSession where
  "liveSession = newSession 3600000 cs201 10 None 20 (23, 72) ''S-1'' ''tok-1'' 1000"

definition flatDistance :: "real \<times> real \<Rightarrow> real \<times> real \<Rightarrow> real" where
  "flatDistance p q = \<bar>fst p - fst q\<bar> + \<bar>snd p - snd q\<bar>"

definition threeRotations :: "(string \<times> timestamp) list" where
  "threeRotations = [(''tok-2'', 31000), (''tok-3'', 61000), (''tok-4'', 91000)]"

definition slotA :: slotBinding where
  "slotA = \<lparr>sb_timeSlotId = Some ''ts-1'',
            sb_entry = labEntry\<lparr>sc_startTime := Some ''09:00'', sc_endTime := Some ''10:00''\<rparr>\<rparr>"

definition slotB :: slotBinding where
  "slotB = \<lparr>sb_timeSlotId = Some ''ts-2'',
            sb_entry = labEntry\<lparr>sc_startTime := Some ''10:00'', sc_endTime := Some ''11:00''\<rparr>\<rparr>"

definition mergedLab :: schedule where
  "mergedLab =
     labEntry
       \<lparr>sc_startTime := Some ''09:00'', sc_endTime := Some ''11:00'', sc_isMerged := True,
        sc_mergedTimeSlots := [''ts-1'', ''ts-2''], sc_customLabel := Some ''Lab Session'',
        sc_originalSlots :=
          [\<lparr>os_startTime = Some ''09:00'', os_endTime = Some ''10:00'', os_timeSlotId = Some ''ts-1''\<rparr>,
           \<lparr>os_startTime = Some ''10:00'', os_endTime = Some ''11:00'', os_timeSlotId = Some ''ts-2''\<rparr>],
        sc_mergedSessionRange := Some ''09:00-11:00''\<rparr>"

section \<open>TimeSlot: the stored duration\<close>

lemma clockMinutes_example: "clockMinutes ''10:00'' = Some 600 \<and> clockMinutes ''09:00'' = Some 540"
  by (simp add: digitValue_def)

lemma calculateDuration_clock:
  assumes "ts_startTime s = Some a" "ts_endTime s = Some b"
    and "en_dateValue engine (dateText a) = Some (base + int m * 60000)"
    and "en_dateValue engine (dateText b) = Some (base + int n * 60000)"
    and "en_divide engine ((int n - int m) * 60000) (1000 * 60) = real_of_int (int n - int m)"
  shows "calculateDuration engine s = Num (real_of_int (int n - int m))"
proof -
  have "base + int n * 60000 - (base + int m * 60000) = (int n - int m) * 60000"
    by (simp add: algebra_simps)
  with assms show ?thesis
    by (simp add: calculateDuration_def interpolate_def)
qed

lemma saveTimeSlot_valid:
  assumes "validateTimeSlot s" and "modStart \<or> modEnd"
  shows "saveTimeSlot engine modStart modEnd s = Inr (assignDuration (calculateDuration engine s) s)"
  using assms by (simp add: saveTimeSlot_def preSave_def)

text \<open>
  C10 (as amended). A save of a valid TimeSlot in which \<open>startTime\<close> or \<open>endTime\<close> was
  modified succeeds. When \<open>calculateDuration\<close> yields a number, that number is stored
  as \<open>duration\<close>; when it yields \<open>NaN\<close>, nothing is stored and \<open>duration\<close> keeps what it
  had. For start and end times in the \<open>"HH:MM"\<close> format, which the engine reads as
  minutes \<open>m\<close> and \<open>n\<close> of the same day and whose difference it divides exactly, the
  stored duration is \<open>n - m\<close>, a whole number of minutes. Validation does not compare
  the two times: the save also succeeds when the end is earlier than the start, and
  the stored duration is then negative.
\<close>

theorem timeSlot_save_stores_duration:
  assumes "validateTimeSlot s" and "modStart \<or> modEnd"
  shows "(\<forall>r. calculateDuration engine s = Num r \<longrightarrow>
            saveTimeSlot engine modStart modEnd s = Inr (s\<lparr>ts_duration := Some r\<rparr>))
         \<and> (calculateDuration engine s = NaN \<longrightarrow> saveTimeSlot engine modStart modEnd s = Inr s)
         \<and> (\<forall>a b m n base.
               ts_startTime s = Some a \<and> ts_endTime s = Some b
               \<and> clockMinutes a = Some m \<and> clockMinutes b = Some n
               \<and> en_dateValue engine (dateText a) = Some (base + int m * 60000)
               \<and> en_dateValue engine (dateText b) = Some (base + int n * 60000)
               \<and> en_divide engine ((int n - int m) * 60000) (1000 * 60)
                   = real_of_int (int n - int m)
             \<longrightarrow> saveTimeSlot engine modStart modEnd s
                   = Inr (s\<lparr>ts_duration := Some (real_of_int (int n - int m))\<rparr>)
                 \<and> (n < m \<longrightarrow> real_of_int (int n - int m) < 0))"
proof (intro conjI allI impI)
  fix r
  assume "calculateDuration engine s = Num r"
  with saveTimeSlot_valid [OF assms, of engine]
  show "saveTimeSlot engine modStart modEnd s = Inr (s\<lparr>ts_duration := Some r\<rparr>)"
    by (simp add: assignDuration_def)
next
  assume "calculateDuration engine s = NaN"
  with saveTimeSlot_valid [OF assms, of engine]
  show "saveTimeSlot engine modStart modEnd s = Inr s"
    by (simp add: assignDuration_def)
next
  fix a b m n base
  assume h: "ts_startTime s = Some a \<and> ts_endTime s = Some b
               \<and> clockMinutes a = Some m \<and> clockMinutes b = Some n
               \<and> en_dateValue engine (dateText a) = Some (base + int m * 60000)
               \<and> en_dateValue engine (dateText b) = Some (base + int n * 60000)
               \<and> en_divide engine ((int n - int m) * 60000) (1000 * 60)
                   = real_of_int (int n - int m)"
  then have "calculateDuration engine s = Num (real_of_int (int n - int m))"
    using calculateDuration_clock [of s a b engine base m n] by blast
  with saveTimeSlot_valid [OF assms, of engine]
  show "saveTimeSlot engine modStart modEnd s
          = Inr (s\<lparr>ts_duration := Some (real_of_int (int n - int m))\<rparr>)"
    by (simp add: assignDuration_def)
  assume "n < m"
  then show "real_of_int (int n - int m) < 0" by simp
qed

theorem timeSlot_save_stores_duration_witness:
  "validateTimeSlot lateSlot
   \<and> calculateDuration clockEngine lateSlot = Num (- 60)
   \<and> saveTimeSlot clockEngine True False lateSlot = Inr (lateSlot\<lparr>ts_duration := Some (- 60)\<rparr>)"
proof -
  have v: "validateTimeSlot lateSlot"
    by (simp add: validateTimeSlot_def lateSlot_def requiredString_def requiredPath_def
        enumString_def timeSlotTypes_def)
  have t: "ts_startTime lateSlot = Some ''10:00'' \<and> ts_endTime lateSlot = Some ''09:00''
           \<and> clockMinutes ''10:00'' = Some 600 \<and> clockMinutes ''09:00'' = Some 540"
    using clockMinutes_example by (simp add: lateSlot_def)
  have e: "en_dateValue clockEngine (dateText ''10:00'') = Some (0 + int 600 * 60000)
           \<and> en_dateValue clockEngine (dateText ''09:00'') = Some (0 + int 540 * 60000)
           \<and> en_divide clockEngine ((int 540 - int 600) * 60000) (1000 * 60)
               = real_of_int (int 540 - int 600)"
    using clockMinutes_example by (simp add: clockEngine_def dateText_def)
  note th = timeSlot_save_stores_duration [of lateSlot True False clockEngine]
  from th v t e
  have s: "saveTimeSlot clockEngine True False lateSlot
             = Inr (lateSlot\<lparr>ts_duration := Some (real_of_int (int 540 - int 600))\<rparr>)"
    by blast
  have c: "calculateDuration clockEngine lateSlot = Num (- 60)"
    using calculateDuration_clock [of lateSlot "''10:00''" "''09:00''" clockEngine 0 600 540] t e
    by simp
  from s v c show ?thesis by simp
qed

text \<open>
  C10 as stated fails for a time that is no date-time text: the valid TimeSlot with
  \<open>startTime = "abc"\<close> and a stored duration of 60 is saved, with \<open>startTime\<close> modified,
  as it is; \<open>calculateDuration\<close> gives \<open>NaN\<close> and the stored duration is still 60.
\<close>

theorem unparsable_time_keeps_stored_duration:
  "validateTimeSlot garbledSlot
   \<and> en_dateValue clockEngine (dateText ''abc'') = None
   \<and> calculateDuration clockEngine garbledSlot = NaN
   \<and> saveTimeSlot clockEngine True False garbledSlot = Inr garbledSlot
   \<and> ts_duration garbledSlot = Some 60"
  by (simp add: validateTimeSlot_def garbledSlot_def requiredString_def requiredPath_def
      enumString_def timeSlotTypes_def clockEngine_def dateText_def calculateDuration_def
      interpolate_def saveTimeSlot_def preSave_def assignDuration_def)

section \<open>Weekdays of templates, manual entries and Instances\<close>

lemma in_map_filter: "y \<in> set (List.map_filter f xs) \<longleftrightarrow> (\<exists>x \<in> set xs. f x = Some y)"
  by (induction xs) (auto split: option.splits)

lemma find_SomeD: "find P xs = Some x \<Longrightarrow> x \<in> set xs \<and> P x"
  by (induction xs) (auto split: if_splits)

lemma dayIndex_range: "dayIndex s = Some w \<Longrightarrow> 0 \<le> w \<and> w \<le> 6"
  by (auto simp: dayIndex_def split: if_splits)

lemma first_mod:
  assumes "0 \<le> w" "w \<le> 6"
  shows "(s + (w - (s + 4) mod 7) mod 7 + 4) mod 7 = (w::int)"
proof -
  have "(s + (w - (s + 4) mod 7) mod 7 + 4) mod 7 = ((s + 4) + (w - (s + 4) mod 7) mod 7) mod 7"
    by (simp add: algebra_simps)
  also have "\<dots> = ((s + 4) mod 7 + (w - (s + 4) mod 7)) mod 7"
    by (metis mod_add_eq mod_mod_trivial)
  also have "\<dots> = w mod 7" by simp
  also have "\<dots> = w" using assms by simp
  finally show ?thesis .
qed

lemma step_mod:
  assumes "step = 7 \<or> step = 14"
  shows "(x + k * step + 4) mod 7 = (x + 4) mod (7::int)"
proof -
  from assms obtain c where c: "step = c * 7" by auto
  have "x + k * step + 4 = (x + 4) + (k * c) * 7" using c by (simp add: algebra_simps)
  then show ?thesis by (metis mod_mult_self1)
qed

lemma weekdayOf_step:
  assumes "0 \<le> w" "w \<le> 6" "step = 7 \<or> step = 14"
  shows "weekdayOf (firstMatch s w + int k * step) = w"
  unfolding weekdayOf_def firstMatch_def
  by (simp only: step_mod [OF assms(3)] first_mod [OF assms(1,2)])

lemma candidateDates_form:
  assumes "d \<in> set (candidateDates t a b)"
  shows "\<exists>s w k. Option.bind (rs_dayOfWeek t) dayIndex = Some w
            \<and> d = firstMatch s w + int k * stepDays t"
proof (cases "rs_semesterStartDate t")
  case None
  with assms show ?thesis by (simp add: candidateDates_def)
next
  case (Some s)
  note s = this
  show ?thesis
  proof (cases "rs_semesterEndDate t")
    case None
    with assms s show ?thesis by (simp add: candidateDates_def)
  next
    case (Some e)
    note e = this
    show ?thesis
    proof (cases "Option.bind (rs_dayOfWeek t) dayIndex")
      case None
      with assms s e show ?thesis by (simp add: candidateDates_def)
    next
      case (Some w)
      with assms s e obtain k where "d = firstMatch s w + int k * stepDays t"
        by (auto simp: candidateDates_def Let_def)
      with Some show ?thesis by blast
    qed
  qed
qed

lemma candidateDates_weekday:
  assumes "d \<in> set (candidateDates t a b)"
  shows "Option.bind (rs_dayOfWeek t) dayIndex = Some (weekdayOf d)"
proof -
  from candidateDates_form [OF assms] obtain s w k where
    w: "Option.bind (rs_dayOfWeek t) dayIndex = Some w"
    and d: "d = firstMatch s w + int k * stepDays t"
    by blast
  from w obtain n where "dayIndex n = Some w" by (cases "rs_dayOfWeek t") auto
  then have r: "0 \<le> w" "w \<le> 6" using dayIndex_range by auto
  have "stepDays t = 7 \<or> stepDays t = 14" by (simp add: stepDays_def)
  with d have "weekdayOf d = w" using weekdayOf_step [OF r] by simp
  with w show ?thesis by simp
qed

lemma weekDays_index: "n \<in> set weekDays \<Longrightarrow> \<exists>w. dayIndex n = Some w \<and> 1 \<le> w"
  by (auto simp: weekDays_def dayIndex_def)


lemma enum_weekDays:
  assumes "requiredString v" "enumString weekDays v"
  shows "v \<in> Some ` set weekDays \<and> v \<noteq> Some ''Sunday''"
  using assms by (cases v) (auto simp: enumString_def requiredString_def weekDays_def)

lemma instanceFor_date:
  assumes "instanceFor t d r = Some i"
  shows "si_scheduledDate i = Some d
         \<or> (\<exists>ov. r = Some ov \<and> ov_overrideType ov = Some ''reschedule''
                \<and> si_overrideId i = Some (ov_id ov) \<and> ov_newDate ov \<noteq> None
                \<and> si_scheduledDate i = ov_newDate ov)"
proof (cases r)
  case None
  with assms show ?thesis by (auto simp: instanceFor_def baseInstance_def)
next
  case (Some ov)
  show ?thesis
  proof (cases "ov_newDate ov")
    case None
    with assms Some show ?thesis
      by (auto simp: instanceFor_def baseInstance_def overriddenInstance_def orElse_def
          split: if_splits)
  next
    case (Some nd)
    with assms \<open>r = Some ov\<close> show ?thesis
      by (auto simp: instanceFor_def baseInstance_def overriddenInstance_def orElse_def
          split: if_splits)
  qed
qed

text \<open>
  C9 (as amended). The \<open>dayOfWeek\<close> of every valid RecurringSchedule template and of
  every valid manual Schedule entry is one of Monday to Saturday, never Sunday. Every
  Instance of an expansion of a valid template falls on the template's weekday, hence
  not on a Sunday, unless it was moved by a \<open>reschedule\<close> override that carries a
  \<open>newDate\<close>: then its date is that \<open>newDate\<close>, which nothing constrains.
\<close>

theorem dayOfWeek_monday_to_saturday:
  "(validateRecurringSchedule t \<longrightarrow>
      rs_dayOfWeek t \<in> Some ` set weekDays \<and> rs_dayOfWeek t \<noteq> Some ''Sunday'')
   \<and> (validateSchedule e \<longrightarrow>
      sc_dayOfWeek e \<in> Some ` set weekDays \<and> sc_dayOfWeek e \<noteq> Some ''Sunday'')
   \<and> (validateRecurringSchedule t \<longrightarrow>
        (\<forall>i \<in> set (Expand ovs t a b).
           (\<exists>d. si_scheduledDate i = Some d
                \<and> Option.bind (rs_dayOfWeek t) dayIndex = Some (weekdayOf d)
                \<and> weekdayOf d \<noteq> 0)
           \<or> (\<exists>ov \<in> set ovs. ov_overrideType ov = Some ''reschedule''
                  \<and> si_overrideId i = Some (ov_id ov) \<and> ov_newDate ov \<noteq> None
                  \<and> si_scheduledDate i = ov_newDate ov)))"
proof (intro conjI impI ballI)
  assume "validateRecurringSchedule t"
  then show "rs_dayOfWeek t \<in> Some ` set weekDays" "rs_dayOfWeek t \<noteq> Some ''Sunday''"
    using enum_weekDays [of "rs_dayOfWeek t"] by (simp_all add: validateRecurringSchedule_def)
next
  assume "validateSchedule e"
  then show "sc_dayOfWeek e \<in> Some ` set weekDays" "sc_dayOfWeek e \<noteq> Some ''Sunday''"
    using enum_weekDays [of "sc_dayOfWeek e"] by (simp_all add: validateSchedule_def)
next
  fix i
  assume v: "validateRecurringSchedule t" and i: "i \<in> set (Expand ovs t a b)"
  from i obtain d where d: "d \<in> set (candidateDates t a b)"
    and f: "instanceFor t d (Resolve ovs (rs_id t) d) = Some i"
    by (auto simp: Expand_def in_map_filter)
  from v have "rs_dayOfWeek t \<in> Some ` set weekDays"
    using enum_weekDays [of "rs_dayOfWeek t"] by (simp add: validateRecurringSchedule_def)
  then obtain n where n: "rs_dayOfWeek t = Some n" "n \<in> set weekDays" by auto
  from weekDays_index [OF n(2)] obtain w where w: "dayIndex n = Some w" "1 \<le> w" by blast
  from candidateDates_weekday [OF d] n w have wd: "weekdayOf d = w"
    "Option.bind (rs_dayOfWeek t) dayIndex = Some (weekdayOf d)" by simp_all
  from instanceFor_date [OF f]
  show "(\<exists>d. si_scheduledDate i = Some d
                \<and> Option.bind (rs_dayOfWeek t) dayIndex = Some (weekdayOf d)
                \<and> weekdayOf d \<noteq> 0)
           \<or> (\<exists>ov \<in> set ovs. ov_overrideType ov = Some ''reschedule''
                  \<and> si_overrideId i = Some (ov_id ov) \<and> ov_newDate ov \<noteq> None
                  \<and> si_scheduledDate i = ov_newDate ov)"
  proof
    assume "si_scheduledDate i = Some d"
    with wd w(2) show ?thesis by auto
  next
    assume "\<exists>ov. Resolve ovs (rs_id t) d = Some ov \<and> ov_overrideType ov = Some ''reschedule''
                \<and> si_overrideId i = Some (ov_id ov) \<and> ov_newDate ov \<noteq> None
                \<and> si_scheduledDate i = ov_newDate ov"
    then obtain ov where r: "Resolve ovs (rs_id t) d = Some ov"
      and o: "ov_overrideType ov = Some ''reschedule''" "si_overrideId i = Some (ov_id ov)"
         "ov_newDate ov \<noteq> None" "si_scheduledDate i = ov_newDate ov" by blast
    from r have "ov \<in> set ovs" using find_SomeD by (fastforce simp: Resolve_def)
    with o show ?thesis by blast
  qed
qed

theorem dayOfWeek_monday_to_saturday_witness:
  "validateRecurringSchedule mondayTemplate \<and> rs_dayOfWeek mondayTemplate \<noteq> Some ''Sunday''
   \<and> validateSchedule labEntry \<and> sc_dayOfWeek labEntry \<noteq> Some ''Sunday''
   \<and> baseInstance mondayTemplate 20276 \<in> set (Expand [sundayReschedule] mondayTemplate 20270 20300)
   \<and> si_scheduledDate (baseInstance mondayTemplate 20276) = Some 20276
   \<and> weekdayOf 20276 \<noteq> 0"
proof -
  have v: "validateRecurringSchedule mondayTemplate" by code_simp
  have e: "validateSchedule labEntry" by code_simp
  have m: "baseInstance mondayTemplate 20276
             \<in> set (Expand [sundayReschedule] mondayTemplate 20270 20300)" by code_simp
  have w: "si_scheduledDate (baseInstance mondayTemplate 20276) = Some 20276"
    and n: "si_overrideId (baseInstance mondayTemplate 20276) = None"
    by (simp_all add: baseInstance_def)
  note t = dayOfWeek_monday_to_saturday
             [of mondayTemplate labEntry "[sundayReschedule]" 20270 20300]
  from t v e
  have d: "rs_dayOfWeek mondayTemplate \<noteq> Some ''Sunday''" "sc_dayOfWeek labEntry \<noteq> Some ''Sunday''"
    by blast+
  from t v m w n have "weekdayOf 20276 \<noteq> 0" by fastforce
  with v e m w d show ?thesis by blast
qed

text \<open>
  C9 as stated fails for expanded Instances: the valid Monday template, with a valid
  \<open>reschedule\<close> override that moves 2025-07-14 (day 20283) to 2025-07-13 (day 20282),
  expands to valid Instances of which the second falls on day 20282, a Sunday.
\<close>

theorem expanded_instance_on_sunday:
  "validateRecurringSchedule mondayTemplate \<and> validateScheduleOverride sundayReschedule
   \<and> list_all validateScheduleInstance (Expand [sundayReschedule] mondayTemplate 20270 20300)
   \<and> map si_scheduledDate (Expand [sundayReschedule] mondayTemplate 20270 20300)
       = [Some 20276, Some 20282, Some 20290, Some 20297]
   \<and> weekdayOf 20282 = 0 \<and> dayIndex ''Sunday'' = Some 0"
  by code_simp

section \<open>Active overrides per (template, date)\<close>

lemma singleActiveOverride_iff:
  "singleActiveOverride store \<longleftrightarrow> (\<forall>tid d. length (activeOverridesFor store tid d) \<le> 1)"
proof
  assume s: "singleActiveOverride store"
  show "\<forall>tid d. length (activeOverridesFor store tid d) \<le> 1"
  proof (intro allI)
    fix tid d
    show "length (activeOverridesFor store tid d) \<le> 1"
    proof (cases "activeOverridesFor store tid d")
      case Nil
      then show ?thesis by simp
    next
      case (Cons x xs)
      then have "x \<in> set (activeOverridesFor store tid d)" by simp
      then have x: "x \<in> set store" "ov_recurringScheduleId x = Some tid" "ov_overrideDate x = Some d"
        by (simp_all add: activeOverridesFor_def)
      with s show ?thesis
        by (auto simp: singleActiveOverride_def list_all_iff)
    qed
  qed
next
  assume "\<forall>tid d. length (activeOverridesFor store tid d) \<le> 1"
  then show "singleActiveOverride store"
    by (auto simp: singleActiveOverride_def list_all_iff split: option.splits)
qed

lemma Resolve_None_iff: "Resolve store tid d = None \<longleftrightarrow> activeOverridesFor store tid d = []"
  by (auto simp: Resolve_def activeOverridesFor_def find_None_iff filter_empty_conv)

lemma activeOverridesFor_append:
  "activeOverridesFor (store @ [ov]) tid d =
     activeOverridesFor store tid d
       @ (if ov_isActive ov \<and> ov_recurringScheduleId ov = Some tid \<and> ov_overrideDate ov = Some d
          then [ov] else [])"
  by (simp add: activeOverridesFor_def)

lemma addOverride_result:
  assumes "addOverride store ov = Inr store'"
  shows "store' = store @ [ov]
         \<and> (\<exists>tid d. ov_recurringScheduleId ov = Some tid \<and> ov_overrideDate ov = Some d
               \<and> (ov_isActive ov \<longrightarrow> activeOverridesFor store tid d = []))"
  using assms
  by (auto simp: addOverride_def insertOverride_def Resolve_None_iff
      split: option.splits if_splits sum.splits)

lemma addOverride_preserves:
  assumes inv: "singleActiveOverride store" and ok: "addOverride store ov = Inr store'"
  shows "singleActiveOverride store'"
proof -
  from addOverride_result [OF ok] obtain tid d where
    s: "store' = store @ [ov]"
    and k: "ov_recurringScheduleId ov = Some tid" "ov_overrideDate ov = Some d"
    and a: "ov_isActive ov \<longrightarrow> activeOverridesFor store tid d = []"
    by blast
  from inv have i: "\<And>t' d'. length (activeOverridesFor store t' d') \<le> 1"
    by (simp add: singleActiveOverride_iff)
  have "length (activeOverridesFor (store @ [ov]) t' d') \<le> 1" for t' d'
    using i [of t' d'] k a by (auto simp: activeOverridesFor_append)
  with s show ?thesis by (simp add: singleActiveOverride_iff)
qed

lemma addOverride_conflict:
  assumes "ov_isActive ov" "ov_recurringScheduleId ov = Some tid" "ov_overrideDate ov = Some d"
    and "activeOverridesFor store tid d \<noteq> []"
  shows "addOverride store ov = Inl ConflictError"
  using assms by (simp add: addOverride_def Resolve_None_iff)

text \<open>
  C3 (as amended). The override collection is indexed on (template, date) without
  uniqueness: the store accepts every valid override with a fresh \<open>_id\<close> and appends it,
  overwriting nothing, whether or not an active override for its key exists. The
  Resolver's checked write rejects, with a conflict error, an active override for a
  key that already has an active one, and a store written only through it keeps at
  most one active override per (template, date).
\<close>

theorem override_store_accepts_and_checked_write_rejects:
  "(validateScheduleOverride ov \<and> ov_id ov \<notin> set (map ov_id store)
      \<longrightarrow> insertOverride store ov = Inr (store @ [ov]))
   \<and> (ov_isActive ov \<and> ov_recurringScheduleId ov = Some tid \<and> ov_overrideDate ov = Some d
        \<and> activeOverridesFor store tid d \<noteq> []
      \<longrightarrow> addOverride store ov = Inl ConflictError)
   \<and> (singleActiveOverride store \<and> addOverride store ov = Inr store'
      \<longrightarrow> store' = store @ [ov] \<and> singleActiveOverride store')"
proof (intro conjI impI)
  assume "validateScheduleOverride ov \<and> ov_id ov \<notin> set (map ov_id store)"
  then show "insertOverride store ov = Inr (store @ [ov])"
    by (simp add: insertOverride_def)
next
  assume "ov_isActive ov \<and> ov_recurringScheduleId ov = Some tid \<and> ov_overrideDate ov = Some d
        \<and> activeOverridesFor store tid d \<noteq> []"
  then show "addOverride store ov = Inl ConflictError"
    using addOverride_conflict by blast
next
  assume h: "singleActiveOverride store \<and> addOverride store ov = Inr store'"
  then show "store' = store @ [ov]" using addOverride_result by blast
  from h show "singleActiveOverride store'" using addOverride_preserves by blast
qed

theorem override_store_accepts_and_checked_write_rejects_witness:
  "validateScheduleOverride holidayCancel \<and> ov_id holidayCancel \<notin> set (map ov_id [sundayReschedule])
   \<and> insertOverride [sundayReschedule] holidayCancel = Inr ([sundayReschedule] @ [holidayCancel])
   \<and> activeOverridesFor [sundayReschedule] 1 20283 \<noteq> []
   \<and> addOverride [sundayReschedule] holidayCancel = Inl ConflictError
   \<and> singleActiveOverride [] \<and> addOverride [] holidayCancel = Inr [holidayCancel]
   \<and> singleActiveOverride [holidayCancel]"
proof -
  have a: "validateScheduleOverride holidayCancel
           \<and> ov_id holidayCancel \<notin> set (map ov_id [sundayReschedule])" by code_simp
  have b: "ov_isActive holidayCancel \<and> ov_recurringScheduleId holidayCancel = Some 1
           \<and> ov_overrideDate holidayCancel = Some 20283
           \<and> activeOverridesFor [sundayReschedule] 1 20283 \<noteq> []" by code_simp
  have c: "singleActiveOverride [] \<and> addOverride [] holidayCancel = Inr [holidayCancel]"
    by code_simp
  from override_store_accepts_and_checked_write_rejects
         [of holidayCancel "[sundayReschedule]" 1 20283] a b
  have 1: "insertOverride [sundayReschedule] holidayCancel = Inr ([sundayReschedule] @ [holidayCancel])"
    and 2: "addOverride [sundayReschedule] holidayCancel = Inl ConflictError" by blast+
  from override_store_accepts_and_checked_write_rejects
         [of holidayCancel "[]" 1 20283 "[holidayCancel]"] c
  have 3: "singleActiveOverride [holidayCancel]" by blast
  from a b c 1 2 3 show ?thesis by blast
qed

text \<open>
  C3 as stated fails on the collection: after one active override for template 1 on
  day 20283, a second active override for the same key is stored beside it.
\<close>

theorem second_active_override_is_stored:
  "ov_isActive sundayReschedule \<and> ov_isActive holidayCancel
   \<and> ov_recurringScheduleId holidayCancel = ov_recurringScheduleId sundayReschedule
   \<and> ov_overrideDate holidayCancel = ov_overrideDate sundayReschedule
   \<and> insertOverride [] sundayReschedule = Inr [sundayReschedule]
   \<and> insertOverride [sundayReschedule] holidayCancel = Inr [sundayReschedule, holidayCancel]
   \<and> activeOverridesFor [sundayReschedule, holidayCancel] 1 20283 = [sundayReschedule, holidayCancel]
   \<and> \<not> singleActiveOverride [sundayReschedule, holidayCancel]"
  by code_simp

section \<open>The payload snapshot of a session\<close>

lemma insertSession_required:
  assumes "insertSession store s = Inr store'"
  shows "store' = store @ [s] \<and> qs_classId s \<noteq> None \<and> qs_teacherId s \<noteq> None
         \<and> qs_sessionId s \<noteq> None \<and> qs_currentToken s \<noteq> None \<and> qs_sessionExpiresAt s \<noteq> None"
  using assms
  by (auto simp: insertSession_def validateQRCodeSession_def requiredPath_def requiredString_def
      split: if_splits option.splits)

lemma validate_ignores_payload:
  "validateQRCodeSession (s\<lparr>qs_qrPayload := p\<rparr>) = validateQRCodeSession s"
  by (simp add: validateQRCodeSession_def)

lemma newSession_payloadComplete:
  "payloadComplete (qs_qrPayload (newSession dur snap c sch t loc sid tok now))"
  by (simp add: newSession_def payloadComplete_def)

lemma Create_result:
  assumes "Create dur snap c sch t loc sid tok now store = Inr store'"
  shows "store' = store @ [newSession dur snap c sch t loc sid tok now]"
  using assms
  by (auto simp: Create_def insertSession_def split: sum.splits if_splits write_error.splits)

lemma rotateToken_payloadComplete:
  "payloadComplete (qs_qrPayload s) \<Longrightarrow> payloadComplete (qs_qrPayload (rotateToken tok now s))"
  by (simp add: rotateToken_def payloadComplete_def)

text \<open>
  C7 (as amended). Every QRCodeSession that the collection accepts has \<open>classId\<close>,
  \<open>teacherId\<close>, \<open>sessionId\<close>, \<open>currentToken\<close> and \<open>sessionExpiresAt\<close>; the schema
  requires no path of \<open>qrPayload\<close>, and validation does not look at the payload at all.
  A session built by \<open>Create\<close> carries all ten contract fields in its payload snapshot,
  and a rotation keeps them.
\<close>

theorem payload_optional_in_schema_complete_from_Create:
  "(insertSession store s = Inr store' \<longrightarrow>
       store' = store @ [s] \<and> qs_classId s \<noteq> None \<and> qs_teacherId s \<noteq> None
       \<and> qs_sessionId s \<noteq> None \<and> qs_currentToken s \<noteq> None \<and> qs_sessionExpiresAt s \<noteq> None)
   \<and> validateQRCodeSession (s\<lparr>qs_qrPayload := p\<rparr>) = validateQRCodeSession s
   \<and> (Create dur snap c sch t loc sid tok now store = Inr store' \<longrightarrow>
        store' = store @ [newSession dur snap c sch t loc sid tok now]
        \<and> payloadComplete (qs_qrPayload (newSession dur snap c sch t loc sid tok now)))
   \<and> (payloadComplete (qs_qrPayload s) \<longrightarrow>
        payloadComplete (qs_qrPayload (rotateToken tok' now' s)))"
  using insertSession_required [of store s store'] validate_ignores_payload [where s = s and p = p]
    Create_result [of dur snap c sch t loc sid tok now store store']
    newSession_payloadComplete [of dur snap c sch t loc sid tok now]
    rotateToken_payloadComplete [of s tok' now']
  by blast

theorem payload_optional_in_schema_complete_from_Create_witness:
  "insertSession [] liveSession = Inr [liveSession]
   \<and> qs_sessionId liveSession \<noteq> None
   \<and> Create 3600000 cs201 10 None 20 (23, 72) ''S-1'' ''tok-1'' 1000 [] = Inr [liveSession]
   \<and> payloadComplete (qs_qrPayload liveSession)
   \<and> payloadComplete (qs_qrPayload (rotateToken ''tok-2'' 31000 liveSession))"
proof -
  have a: "insertSession [] liveSession = Inr [liveSession]"
    by (simp add: insertSession_def validateQRCodeSession_def liveSession_def newSession_def
        requiredPath_def requiredString_def)
  have b: "Create 3600000 cs201 10 None 20 (23, 72) ''S-1'' ''tok-1'' 1000 [] = Inr [liveSession]"
    using a by (simp add: Create_def liveSession_def)
  note t = payload_optional_in_schema_complete_from_Create
      [of "[]" liveSession "[liveSession]" emptyPayload 3600000 cs201 10 None 20 "(23, 72)"
          "''S-1''" "''tok-1''" 1000 "''tok-2''" 31000]
  from t a have c: "qs_sessionId liveSession \<noteq> None" by blast
  from t b have d: "payloadComplete (qs_qrPayload liveSession)" by (simp add: liveSession_def)
  from t d have e: "payloadComplete (qs_qrPayload (rotateToken ''tok-2'' 31000 liveSession))"
    by blast
  from a b c d e show ?thesis by blast
qed

text \<open>
  C7 as stated fails on the schema: a session with an entirely empty \<open>qrPayload\<close>
  passes validation and is persisted.
\<close>

theorem session_persisted_without_payload:
  "validateQRCodeSession bareSession \<and> insertSession [] bareSession = Inr [bareSession]
   \<and> qs_qrPayload bareSession = emptyPayload
   \<and> qp_classNumber emptyPayload = None \<and> qp_token emptyPayload = None
   \<and> qp_sessionId emptyPayload = None
   \<and> \<not> payloadComplete (qs_qrPayload bareSession)"
  by (simp add: insertSession_def validateQRCodeSession_def bareSession_def emptyPayload_def
      requiredPath_def requiredString_def payloadComplete_def)

section \<open>Retention of sessions\<close>

lemma ttlMonitorPass_removed:
  assumes "s \<in> set store" "s \<notin> set (ttlMonitorPass now store)"
  shows "\<not> qs_isActive s \<and> (\<exists>e. qs_sessionExpiresAt s = Some e \<and> e + 60 * 1000 \<le> now)"
  using assms
  by (auto simp: ttlMonitorPass_def ttlExpired_def expireAfterSeconds_def split: option.splits)

lemma ttlMonitorPass_kept:
  "set (ttlMonitorPass now store) \<subseteq> set store"
  by (auto simp: ttlMonitorPass_def)

lemma ttlMonitorPass_is_sweep:
  "ttlMonitorPass now store = retentionSweep (expireAfterSeconds * 1000) isClosed now store"
  by (simp add: ttlMonitorPass_def retentionSweep_def ttlExpired_def isClosed_def)

lemma updateSession_ids:
  assumes "\<And>s. qs_sessionId (f s) = qs_sessionId s"
  shows "map qs_sessionId (updateSession sid f store) = map qs_sessionId store"
  using assms by (induction store) (simp_all add: updateSession_def)

lemma RotateById_ids:
  assumes "RotateById sid tok now store = Inr store'"
  shows "map qs_sessionId store' = map qs_sessionId store"
proof -
  from assms have "store' = updateSession sid (rotateToken tok now) store"
    by (auto simp: RotateById_def split: option.splits sum.splits)
  then show ?thesis by (simp add: updateSession_ids rotateToken_def)
qed

lemma Close_ids:
  assumes "Close sid store = Inr store'"
  shows "map qs_sessionId store' = map qs_sessionId store"
proof -
  from assms have "store' = updateSession sid (\<lambda>s. s\<lparr>qs_isActive := False\<rparr>) store"
    by (auto simp: Close_def split: option.splits)
  then show ?thesis by (simp add: updateSession_ids)
qed

lemma Create_keeps:
  assumes "Create dur snap c sch t loc sid tok now store = Inr store'"
  shows "\<exists>s. store' = store @ [s]"
  using assms
  by (auto simp: Create_def insertSession_def split: sum.splits if_splits write_error.splits)

text \<open>
  C6 (as amended). A QRCodeSession is removed only by the collection's TTL index: a pass
  of the TTL monitor removes a session only if it is closed (\<open>isActive = false\<close>) and
  its \<open>sessionExpiresAt\<close> lies at least 60 seconds back, and removes nothing else;
  \<open>Create\<close> only adds a session, \<open>Rotate\<close> and \<open>Close\<close> leave the collection's session ids
  as they are, and \<open>ValidateScan\<close> returns no store. The mechanism is the storage-level
  TTL index, whose buffer of 60 seconds and whose filter \<open>isActive: false\<close> are fixed in
  the schema: it coincides with the retention sweep at exactly that grace period and
  that predicate.
\<close>

theorem sessions_deleted_only_by_ttl_index:
  "(s \<in> set store \<and> s \<notin> set (ttlMonitorPass now store) \<longrightarrow>
      \<not> qs_isActive s \<and> (\<exists>e. qs_sessionExpiresAt s = Some e \<and> e + 60 * 1000 \<le> now))
   \<and> set (ttlMonitorPass now store) \<subseteq> set store
   \<and> ttlMonitorPass now store = retentionSweep (expireAfterSeconds * 1000) isClosed now store
   \<and> (Create dur snap c sch t loc sid tok now store = Inr store' \<longrightarrow> (\<exists>n. store' = store @ [n]))
   \<and> (RotateById sid tok now store = Inr store' \<longrightarrow>
        map qs_sessionId store' = map qs_sessionId store)
   \<and> (Close sid store = Inr store' \<longrightarrow> map qs_sessionId store' = map qs_sessionId store)"
  using ttlMonitorPass_removed [of s store now] ttlMonitorPass_kept [of now store]
    ttlMonitorPass_is_sweep [of now store]
    Create_keeps [of dur snap c sch t loc sid tok now store store']
    RotateById_ids [of sid tok now store store'] Close_ids [of sid store store']
  by blast



theorem sessions_deleted_only_by_ttl_index_witness:
  "bareSession \<in> set [bareSession, liveSession]
   \<and> ttlMonitorPass 60000 [bareSession, liveSession] = [liveSession]
   \<and> \<not> qs_isActive bareSession \<and> qs_sessionExpiresAt bareSession = Some 0
   \<and> Create 3600000 cs201 10 None 20 (23, 72) ''S-1'' ''tok-1'' 1000 [bareSession]
        = Inr [bareSession, liveSession]
   \<and> map qs_sessionId (projr (RotateById ''S-1'' ''tok-2'' 31000 [bareSession, liveSession]))
        = [Some ''S-0'', Some ''S-1'']
   \<and> map qs_sessionId (projr (Close ''S-1'' [bareSession, liveSession]))
        = [Some ''S-0'', Some ''S-1'']"
proof -
  have a: "bareSession \<in> set [bareSession, liveSession]" by simp
  have n: "bareSession \<noteq> liveSession"
    by (simp add: bareSession_def liveSession_def newSession_def)
  have b: "ttlMonitorPass 60000 [bareSession, liveSession] = [liveSession]"
    by (simp add: ttlMonitorPass_def ttlExpired_def expireAfterSeconds_def bareSession_def
        liveSession_def newSession_def)
  have c: "Create 3600000 cs201 10 None 20 (23, 72) ''S-1'' ''tok-1'' 1000 [bareSession]
        = Inr [bareSession, liveSession]"
    by (simp add: Create_def insertSession_def validateQRCodeSession_def liveSession_def
        newSession_def bareSession_def requiredPath_def requiredString_def)
  have f: "findSession [bareSession, liveSession] ''S-1'' = Some liveSession"
    by (simp add: findSession_def bareSession_def liveSession_def newSession_def)
  have r: "RotateById ''S-1'' ''tok-2'' 31000 [bareSession, liveSession]
             = Inr (updateSession ''S-1'' (rotateToken ''tok-2'' 31000) [bareSession, liveSession])"
    using f by (simp add: RotateById_def Rotate_def beforeExpiry_def liveSession_def newSession_def)
  have k: "Close ''S-1'' [bareSession, liveSession]
             = Inr (updateSession ''S-1'' (\<lambda>s. s\<lparr>qs_isActive := False\<rparr>) [bareSession, liveSession])"
    using f by (simp add: Close_def)
  have i: "map qs_sessionId [bareSession, liveSession] = [Some ''S-0'', Some ''S-1'']"
    by (simp add: bareSession_def liveSession_def newSession_def)
  note t = sessions_deleted_only_by_ttl_index
  from a b n t [of bareSession "[bareSession, liveSession]" 60000]
  have 1: "\<not> qs_isActive bareSession"
    and 2: "\<exists>e. qs_sessionExpiresAt bareSession = Some e \<and> e + 60 * 1000 \<le> 60000"
    by auto
  have 3: "qs_sessionExpiresAt bareSession = Some 0" by (simp add: bareSession_def)
  from r t [where sid = "''S-1''" and tok = "''tok-2''" and now = 31000
              and store = "[bareSession, liveSession]"
              and store' = "updateSession ''S-1'' (rotateToken ''tok-2'' 31000) [bareSession, liveSession]"] i
  have 4: "map qs_sessionId (projr (RotateById ''S-1'' ''tok-2'' 31000 [bareSession, liveSession]))
        = [Some ''S-0'', Some ''S-1'']" by simp
  from k t [where sid = "''S-1''" and store = "[bareSession, liveSession]"
              and store' = "updateSession ''S-1'' (\<lambda>s. s\<lparr>qs_isActive := False\<rparr>) [bareSession, liveSession]"] i
  have 5: "map qs_sessionId (projr (Close ''S-1'' [bareSession, liveSession]))
        = [Some ''S-0'', Some ''S-1'']" by simp
  from a b 1 3 c 4 5 show ?thesis by blast
qed

text \<open>
  C6 as stated fails on the schema: retention is not a sweep with a grace period of the
  caller's choosing. A closed session that expired at time 0 is removed by the TTL
  monitor at 60000 ms, where a sweep with a grace period of 120000 ms keeps it.
\<close>

theorem ttl_buffer_is_not_a_parameter:
  "\<not> qs_isActive bareSession \<and> qs_sessionExpiresAt bareSession = Some 0
   \<and> ttlMonitorPass 60000 [bareSession] = []
   \<and> retentionSweep 120000 isClosed 60000 [bareSession] = [bareSession]
   \<and> expireAfterSeconds = 60"
  by (simp add: ttlMonitorPass_def ttlExpired_def expireAfterSeconds_def retentionSweep_def
      isClosed_def bareSession_def)

section \<open>Token rotation\<close>

lemma rotateToken_frame:
  "outsideRotation (rotateToken tok now s) = outsideRotation s
   \<and> qs_sessionExpiresAt (rotateToken tok now s) = qs_sessionExpiresAt s"
  by (simp add: rotateToken_def outsideRotation_def)

lemma rotateToken_written:
  "qs_currentToken (rotateToken tok now s) = Some tok
   \<and> qs_tokenGeneratedAt (rotateToken tok now s) = now
   \<and> qp_token (qs_qrPayload (rotateToken tok now s)) = Some tok"
  by (simp add: rotateToken_def)

lemma Rotate_Inr:
  "Rotate tok now s = Inr s' \<longleftrightarrow> beforeExpiry now s \<and> s' = rotateToken tok now s"
  by (auto simp: Rotate_def)

lemma beforeExpiry_rotateToken:
  "beforeExpiry t (rotateToken tok now s) = beforeExpiry t s"
  by (simp add: beforeExpiry_def rotateToken_def)

lemma rotations_frame:
  "rotations rs s = Inr s' \<Longrightarrow>
     outsideRotation s' = outsideRotation s \<and> qs_sessionExpiresAt s' = qs_sessionExpiresAt s"
proof (induction rs arbitrary: s)
  case Nil
  then show ?case by simp
next
  case (Cons r rs)
  obtain tok now where r: "r = (tok, now)" by (cases r)
  from Cons.prems r obtain m where m: "Rotate tok now s = Inr m" "rotations rs m = Inr s'"
    by (auto split: sum.splits)
  from m(1) have "m = rotateToken tok now s" by (simp add: Rotate_Inr)
  with Cons.IH [OF m(2)] rotateToken_frame [of tok now s] show ?case by simp
qed

lemma rotations_total:
  "list_all (\<lambda>r. beforeExpiry (snd r) s) rs \<Longrightarrow> \<exists>s'. rotations rs s = Inr s'"
proof (induction rs arbitrary: s)
  case Nil
  then show ?case by simp
next
  case (Cons r rs)
  obtain tok now where r: "r = (tok, now)" by (cases r)
  from Cons.prems r have b: "beforeExpiry now s"
    and rest: "list_all (\<lambda>r. beforeExpiry (snd r) (rotateToken tok now s)) rs"
    by (simp_all add: beforeExpiry_rotateToken)
  from Cons.IH [OF rest] obtain s' where "rotations rs (rotateToken tok now s) = Inr s'" by blast
  with b r show ?case by (simp add: Rotate_def)
qed

text \<open>
  C8. A rotation invoked while \<open>now < sessionExpiresAt\<close> succeeds, and whenever a rotation
  succeeds only \<open>currentToken\<close>, \<open>tokenGeneratedAt\<close> and the token of \<open>qrPayload\<close> are
  written (to the fresh token and the time of the rotation): \<open>sessionExpiresAt\<close> and
  every other path of the session, the rest of the payload included, are as before.
  The same holds after any number of rotations, so no run of rotations extends the
  expiry; a run of rotations whose times all lie before the expiry goes through.
\<close>

theorem rotate_changes_only_token_paths:
  "(beforeExpiry now s \<longrightarrow> Rotate tok now s = Inr (rotateToken tok now s))
   \<and> (Rotate tok now s = Inr s' \<longrightarrow>
        outsideRotation s' = outsideRotation s
        \<and> qs_sessionExpiresAt s' = qs_sessionExpiresAt s
        \<and> qs_currentToken s' = Some tok \<and> qs_tokenGeneratedAt s' = now
        \<and> qp_token (qs_qrPayload s') = Some tok)
   \<and> (list_all (\<lambda>r. beforeExpiry (snd r) s) rs \<longrightarrow> (\<exists>s''. rotations rs s = Inr s''))
   \<and> (rotations rs s = Inr s'' \<longrightarrow>
        outsideRotation s'' = outsideRotation s
        \<and> qs_sessionExpiresAt s'' = qs_sessionExpiresAt s)"
proof (intro conjI impI)
  assume "beforeExpiry now s"
  then show "Rotate tok now s = Inr (rotateToken tok now s)" by (simp add: Rotate_def)
next
  assume "Rotate tok now s = Inr s'"
  then have e: "s' = rotateToken tok now s" by (simp add: Rotate_Inr)
  with rotateToken_frame [of tok now s] rotateToken_written [of tok now s]
  show "outsideRotation s' = outsideRotation s" "qs_sessionExpiresAt s' = qs_sessionExpiresAt s"
    "qs_currentToken s' = Some tok" "qs_tokenGeneratedAt s' = now"
    "qp_token (qs_qrPayload s') = Some tok"
    by simp_all
next
  assume "list_all (\<lambda>r. beforeExpiry (snd r) s) rs"
  then show "\<exists>s''. rotations rs s = Inr s''" by (rule rotations_total)
next
  assume "rotations rs s = Inr s''"
  then show "outsideRotation s'' = outsideRotation s"
    "qs_sessionExpiresAt s'' = qs_sessionExpiresAt s"
    using rotations_frame by blast+
qed

theorem rotate_changes_only_token_paths_witness:
  "beforeExpiry 31000 liveSession
   \<and> Rotate ''tok-2'' 31000 liveSession = Inr (rotateToken ''tok-2'' 31000 liveSession)
   \<and> qs_sessionExpiresAt (rotateToken ''tok-2'' 31000 liveSession) = Some 3601000
   \<and> qs_currentToken (rotateToken ''tok-2'' 31000 liveSession) = Some ''tok-2''
   \<and> list_all (\<lambda>r. beforeExpiry (snd r) liveSession) threeRotations
   \<and> qs_sessionExpiresAt (projr (rotations threeRotations liveSession)) = Some 3601000"
proof -
  have e: "qs_sessionExpiresAt liveSession = Some 3601000"
    by (simp add: liveSession_def newSession_def)
  have b: "beforeExpiry 31000 liveSession" by (simp add: beforeExpiry_def e)
  have l: "list_all (\<lambda>r. beforeExpiry (snd r) liveSession) threeRotations"
    by (simp add: threeRotations_def beforeExpiry_def e)
  note t = rotate_changes_only_token_paths
  from t [of 31000 liveSession "''tok-2''"] b
  have 1: "Rotate ''tok-2'' 31000 liveSession = Inr (rotateToken ''tok-2'' 31000 liveSession)"
    by blast
  from t [of 31000 liveSession "''tok-2''" "rotateToken ''tok-2'' 31000 liveSession"] 1 e
  have 2: "qs_sessionExpiresAt (rotateToken ''tok-2'' 31000 liveSession) = Some 3601000"
    and 3: "qs_currentToken (rotateToken ''tok-2'' 31000 liveSession) = Some ''tok-2''"
    by simp_all
  from t [where s = liveSession and rs = threeRotations] l
  obtain f where f: "rotations threeRotations liveSession = Inr f" by blast
  from t [where s = liveSession and rs = threeRotations and s'' = f] f e
  have 4: "qs_sessionExpiresAt (projr (rotations threeRotations liveSession)) = Some 3601000"
    by simp
  from b 1 2 3 l 4 show ?thesis by blast
qed

section \<open>Scan validation\<close>

lemma checkScan_accept_iff:
  "checkScan distance radius s tok loc now = Inr ()
     \<longleftrightarrow> qs_isActive s \<and> beforeExpiry now s \<and> qs_currentToken s = Some tok
         \<and> withinRadius distance radius s loc"
  by (auto simp: checkScan_def)

lemma checkScan_reasons:
  "(checkScan distance radius s tok loc now = Inl SessionExpiredError \<longrightarrow> \<not> beforeExpiry now s)
   \<and> (checkScan distance radius s tok loc now = Inl InvalidTokenError \<longrightarrow> qs_currentToken s \<noteq> Some tok)
   \<and> (checkScan distance radius s tok loc now = Inl OutOfRangeError \<longrightarrow> \<not> withinRadius distance radius s loc)
   \<and> (checkScan distance radius s tok loc now = Inl InactiveSessionError \<longrightarrow> \<not> qs_isActive s)"
  by (auto simp: checkScan_def split: if_splits)

lemma checkScan_range:
  "checkScan distance radius s tok loc now
     \<in> {Inr (), Inl SessionExpiredError, Inl InvalidTokenError, Inl OutOfRangeError,
         Inl InactiveSessionError}"
  by (simp add: checkScan_def)

lemma checkScan_single_failure:
  "(\<not> beforeExpiry now s \<longrightarrow> checkScan distance radius s tok loc now = Inl SessionExpiredError)
   \<and> (beforeExpiry now s \<and> qs_currentToken s \<noteq> Some tok
        \<longrightarrow> checkScan distance radius s tok loc now = Inl InvalidTokenError)
   \<and> (beforeExpiry now s \<and> qs_currentToken s = Some tok \<and> \<not> withinRadius distance radius s loc
        \<longrightarrow> checkScan distance radius s tok loc now = Inl OutOfRangeError)
   \<and> (beforeExpiry now s \<and> qs_currentToken s = Some tok \<and> withinRadius distance radius s loc
        \<and> \<not> qs_isActive s
        \<longrightarrow> checkScan distance radius s tok loc now = Inl InactiveSessionError)"
  by (simp add: checkScan_def)

lemma checkScan_boundary:
  assumes "qs_sessionExpiresAt s = Some e"
  shows "(qs_isActive s \<and> qs_currentToken s = Some tok \<and> withinRadius distance radius s loc
            \<longrightarrow> checkScan distance radius s tok loc (e - 1) = Inr ())
         \<and> checkScan distance radius s tok loc (e + 1) = Inl SessionExpiredError"
  using assms by (simp add: checkScan_def beforeExpiry_def)

text \<open>
  C1. For a session found under the scan's session id, \<open>ValidateScan\<close> accepts if and
  only if the session is active, \<open>now\<close> is strictly before \<open>sessionExpiresAt\<close>, the
  submitted token equals \<open>currentToken\<close> and the distance from the student's location
  to the session's is within the radius. Its result is acceptance or one of the four
  scan-rejection reasons, never another error; each reason is returned only when its
  own condition fails, and a scan failing a single condition gets that condition's
  reason. With the correct token, in range, on an active session, a scan one
  millisecond before \<open>sessionExpiresAt\<close> is accepted; one millisecond after it, every
  scan is rejected as expired.
\<close>

theorem validateScan_accepts_iff_and_reasons:
  assumes "findSession store sid = Some s"
  shows "(ValidateScan distance radius store sid tok loc now = Inr ()
            \<longleftrightarrow> qs_isActive s \<and> beforeExpiry now s \<and> qs_currentToken s = Some tok
                \<and> withinRadius distance radius s loc)
         \<and> ValidateScan distance radius store sid tok loc now
             \<in> {Inr (), Inl SessionExpiredError, Inl InvalidTokenError, Inl OutOfRangeError,
                 Inl InactiveSessionError}
         \<and> (ValidateScan distance radius store sid tok loc now = Inl SessionExpiredError
              \<longrightarrow> \<not> beforeExpiry now s)
         \<and> (ValidateScan distance radius store sid tok loc now = Inl InvalidTokenError
              \<longrightarrow> qs_currentToken s \<noteq> Some tok)
         \<and> (ValidateScan distance radius store sid tok loc now = Inl OutOfRangeError
              \<longrightarrow> \<not> withinRadius distance radius s loc)
         \<and> (ValidateScan distance radius store sid tok loc now = Inl InactiveSessionError
              \<longrightarrow> \<not> qs_isActive s)
         \<and> (\<not> beforeExpiry now s
              \<longrightarrow> ValidateScan distance radius store sid tok loc now = Inl SessionExpiredError)
         \<and> (beforeExpiry now s \<and> qs_currentToken s \<noteq> Some tok
              \<longrightarrow> ValidateScan distance radius store sid tok loc now = Inl InvalidTokenError)
         \<and> (beforeExpiry now s \<and> qs_currentToken s = Some tok
              \<and> \<not> withinRadius distance radius s loc
              \<longrightarrow> ValidateScan distance radius store sid tok loc now = Inl OutOfRangeError)
         \<and> (beforeExpiry now s \<and> qs_currentToken s = Some tok
              \<and> withinRadius distance radius s loc \<and> \<not> qs_isActive s
              \<longrightarrow> ValidateScan distance radius store sid tok loc now = Inl InactiveSessionError)
         \<and> (\<forall>e. qs_sessionExpiresAt s = Some e \<longrightarrow>
               (qs_isActive s \<and> qs_currentToken s = Some tok \<and> withinRadius distance radius s loc
                  \<longrightarrow> ValidateScan distance radius store sid tok loc (e - 1) = Inr ())
               \<and> ValidateScan distance radius store sid tok loc (e + 1) = Inl SessionExpiredError)"
proof -
  have v: "ValidateScan distance radius store sid tok loc t = checkScan distance radius s tok loc t" for t
    using assms by (simp add: ValidateScan_def)
  show ?thesis
    unfolding v
    using checkScan_accept_iff [of distance radius s tok loc now]
      checkScan_reasons [of distance radius s tok loc now]
      checkScan_range [of distance radius s tok loc now]
      checkScan_single_failure [of now s distance radius tok loc]
      checkScan_boundary [of s _ tok distance radius loc]
    by blast
qed

theorem validateScan_accepts_iff_and_reasons_witness:
  "findSession [bareSession, liveSession] ''S-1'' = Some liveSession
   \<and> ValidateScan flatDistance 1 [bareSession, liveSession] ''S-1'' ''tok-1'' (23, 72) 3600999 = Inr ()
   \<and> ValidateScan flatDistance 1 [bareSession, liveSession] ''S-1'' ''tok-1'' (23, 72) 3601001
        = Inl SessionExpiredError
   \<and> ValidateScan flatDistance 1 [bareSession, liveSession] ''S-1'' ''tok-9'' (23, 72) 2000
        = Inl InvalidTokenError
   \<and> ValidateScan flatDistance 1 [bareSession, liveSession] ''S-1'' ''tok-1'' (25, 72) 2000
        = Inl OutOfRangeError"
proof -
  have f: "findSession [bareSession, liveSession] ''S-1'' = Some liveSession"
    by (simp add: findSession_def bareSession_def liveSession_def newSession_def)
  have e: "qs_sessionExpiresAt liveSession = Some 3601000"
    and a: "qs_isActive liveSession"
    and k: "qs_currentToken liveSession = Some ''tok-1''"
    by (simp_all add: liveSession_def newSession_def)
  have w: "withinRadius flatDistance 1 liveSession (23, 72)"
    and o: "\<not> withinRadius flatDistance 1 liveSession (25, 72)"
    by (simp_all add: withinRadius_def flatDistance_def liveSession_def newSession_def)
  have b: "beforeExpiry 2000 liveSession" by (simp add: beforeExpiry_def e)
  note t = validateScan_accepts_iff_and_reasons [OF f, of flatDistance 1]
  from t [of "''tok-1''" "(23, 72)"] e a k w
  have 1: "ValidateScan flatDistance 1 [bareSession, liveSession] ''S-1'' ''tok-1'' (23, 72) (3601000 - 1) = Inr ()"
    and 2: "ValidateScan flatDistance 1 [bareSession, liveSession] ''S-1'' ''tok-1'' (23, 72) (3601000 + 1)
        = Inl SessionExpiredError"
    by blast+
  from t [of "''tok-9''" "(23, 72)" 2000] b k
  have 3: "ValidateScan flatDistance 1 [bareSession, liveSession] ''S-1'' ''tok-9'' (23, 72) 2000
        = Inl InvalidTokenError" by simp
  from t [of "''tok-1''" "(25, 72)" 2000] b k o
  have 4: "ValidateScan flatDistance 1 [bareSession, liveSession] ''S-1'' ''tok-1'' (25, 72) 2000
        = Inl OutOfRangeError" by blast
  from f 1 2 3 4 show ?thesis by simp
qed

section \<open>Merge and Split\<close>

lemma contiguous_map:
  assumes "\<And>x. sc_startTime (sb_entry (f x)) = sc_startTime (sb_entry x)"
    and "\<And>x. sc_endTime (sb_entry (f x)) = sc_endTime (sb_entry x)"
  shows "contiguous (map f xs) = contiguous xs"
  using assms by (induction xs rule: contiguous.induct) simp_all

lemma restore_capture:
  "sb_timeSlotId (restoreSlot m (captureSlot x)) = sb_timeSlotId x
   \<and> sc_startTime (sb_entry (restoreSlot m (captureSlot x))) = sc_startTime (sb_entry x)
   \<and> sc_endTime (sb_entry (restoreSlot m (captureSlot x))) = sc_endTime (sb_entry x)
   \<and> captureSlot (restoreSlot m (captureSlot x)) = captureSlot x"
  by (simp add: restoreSlot_def captureSlot_def)

lemma restore_context:
  "sameContext (sb_entry (restoreSlot m p)) (sb_entry (restoreSlot m q))"
  by (simp add: restoreSlot_def sameContext_def)

lemma Merge_InrD:
  assumes "Merge slots label = Inr m"
  shows "\<exists>first rest a b. slots = first # rest
           \<and> sc_startTime (sb_entry first) = Some a
           \<and> sc_endTime (sb_entry (last slots)) = Some b
           \<and> contiguous slots
           \<and> list_all (\<lambda>x. sc_startTime (sb_entry x) \<noteq> None \<and> sc_endTime (sb_entry x) \<noteq> None) slots
           \<and> list_all (\<lambda>x. sameContext (sb_entry first) (sb_entry x)) rest
           \<and> m = (sb_entry first)
                   \<lparr>sc_startTime := Some a, sc_endTime := Some b, sc_isMerged := True,
                    sc_mergedTimeSlots :=
                      concat (map (\<lambda>x. case sb_timeSlotId x of None \<Rightarrow> [] | Some i \<Rightarrow> [i]) slots),
                    sc_customLabel := Some label,
                    sc_originalSlots := map captureSlot slots,
                    sc_mergedSessionRange := Some (rangeString a b)\<rparr>"
proof (cases slots)
  case Nil
  with assms show ?thesis by (simp add: Merge_def)
next
  case (Cons first rest)
  with assms show ?thesis
    by (simp add: Merge_def split: option.splits if_splits)
qed


lemma Merge_restored:
  assumes slots: "slots = first # rest"
    and a: "sc_startTime (sb_entry first) = Some a"
    and b: "sc_endTime (sb_entry (last slots)) = Some b"
    and c: "contiguous slots"
    and t: "list_all (\<lambda>x. sc_startTime (sb_entry x) \<noteq> None \<and> sc_endTime (sb_entry x) \<noteq> None) slots"
    and m: "m = (sb_entry first)
                   \<lparr>sc_startTime := Some a, sc_endTime := Some b, sc_isMerged := True,
                    sc_mergedTimeSlots :=
                      concat (map (\<lambda>x. case sb_timeSlotId x of None \<Rightarrow> [] | Some i \<Rightarrow> [i]) slots),
                    sc_customLabel := Some label,
                    sc_originalSlots := map captureSlot slots,
                    sc_mergedSessionRange := Some (rangeString a b)\<rparr>"
  shows "Merge (map (restoreSlot m) (map captureSlot slots)) label = Inr m"
proof -
  define g where "g = (\<lambda>x. restoreSlot m (captureSlot x))"
  have g: "sb_timeSlotId (g x) = sb_timeSlotId x"
    "sc_startTime (sb_entry (g x)) = sc_startTime (sb_entry x)"
    "sc_endTime (sb_entry (g x)) = sc_endTime (sb_entry x)"
    "captureSlot (g x) = captureSlot x" for x
    using restore_capture [of m x] by (simp_all add: g_def)
  have bs: "map (restoreSlot m) (map captureSlot slots) = g first # map g rest"
    by (simp add: slots g_def)
  have l: "last (g first # map g rest) = g (last slots)"
    using last_map [of slots g] by (simp add: slots)
  have 1: "sc_startTime (sb_entry (g first)) = Some a" by (simp add: g a)
  have 2: "sc_endTime (sb_entry (last (g first # map g rest))) = Some b" by (simp only: l g b)
  have 3: "contiguous (g first # map g rest)"
    using contiguous_map [of g slots] g c by (simp add: slots)
  have 4: "list_all (\<lambda>x. sc_startTime (sb_entry x) \<noteq> None \<and> sc_endTime (sb_entry x) \<noteq> None)
             (g first # map g rest)"
    using t by (simp add: slots g list_all_iff)
  have 5: "list_all (\<lambda>x. sameContext (sb_entry (g first)) (sb_entry x)) (map g rest)"
    using restore_context by (simp add: list_all_iff g_def)
  have 6: "concat (map (\<lambda>x. case sb_timeSlotId x of None \<Rightarrow> [] | Some i \<Rightarrow> [i]) (g first # map g rest))
           = concat (map (\<lambda>x. case sb_timeSlotId x of None \<Rightarrow> [] | Some i \<Rightarrow> [i]) slots)"
    by (simp add: slots g comp_def)
  have 7: "map captureSlot (g first # map g rest) = map captureSlot slots"
    by (simp add: slots g)
  have 8: "(sb_entry (g first))
             \<lparr>sc_startTime := Some a, sc_endTime := Some b, sc_isMerged := True,
              sc_mergedTimeSlots :=
                concat (map (\<lambda>x. case sb_timeSlotId x of None \<Rightarrow> [] | Some i \<Rightarrow> [i]) slots),
              sc_customLabel := Some label,
              sc_originalSlots := map captureSlot slots,
              sc_mergedSessionRange := Some (rangeString a b)\<rparr> = m"
    by (simp add: g_def restoreSlot_def m)
  have "Merge (g first # map g rest) label = Inr m"
    unfolding Merge_def using 1 2 3 4 5 8 by (simp only: list.case 6 7 prod.case option.case if_True simp_thms)
  with bs show ?thesis by simp
qed

text \<open>
  C5. For every entry \<open>m\<close> produced by \<open>Merge\<close>: \<open>m\<close> is marked merged and holds the
  captured slots; \<open>Split m\<close> succeeds and its entries are reconstructed from
  \<open>originalSlots\<close> alone, with each slot's start, end and id as captured; and \<open>Merge\<close>
  on the entries of \<open>Split m\<close>, with the same label, gives back \<open>m\<close> itself, so in
  particular its combined range. Whatever \<open>Split\<close> returns is built from
  \<open>originalSlots\<close>, and \<open>Split\<close> fails with a validation error when the entry is not
  marked merged or \<open>originalSlots\<close> is empty.
\<close>

theorem split_then_merge_round_trip:
  "(Merge slots label = Inr m \<longrightarrow>
      sc_isMerged m \<and> sc_originalSlots m = map captureSlot slots
      \<and> Split m = Inr (map (restoreSlot m) (sc_originalSlots m))
      \<and> map captureSlot (map (restoreSlot m) (sc_originalSlots m)) = sc_originalSlots m
      \<and> Merge (map (restoreSlot m) (sc_originalSlots m)) label = Inr m)
   \<and> (Split e = Inr bs \<longrightarrow> bs = map (restoreSlot e) (sc_originalSlots e))
   \<and> (\<not> sc_isMerged e \<or> sc_originalSlots e = [] \<longrightarrow> Split e = Inl ValidationError)"
proof (intro conjI impI)
  assume h: "Merge slots label = Inr m"
  from Merge_InrD [OF h] obtain first rest a b where
    slots: "slots = first # rest"
    and a: "sc_startTime (sb_entry first) = Some a"
    and b: "sc_endTime (sb_entry (last slots)) = Some b"
    and c: "contiguous slots"
    and t: "list_all (\<lambda>x. sc_startTime (sb_entry x) \<noteq> None \<and> sc_endTime (sb_entry x) \<noteq> None) slots"
    and m: "m = (sb_entry first)
                   \<lparr>sc_startTime := Some a, sc_endTime := Some b, sc_isMerged := True,
                    sc_mergedTimeSlots :=
                      concat (map (\<lambda>x. case sb_timeSlotId x of None \<Rightarrow> [] | Some i \<Rightarrow> [i]) slots),
                    sc_customLabel := Some label,
                    sc_originalSlots := map captureSlot slots,
                    sc_mergedSessionRange := Some (rangeString a b)\<rparr>"
    by blast
  from m show im: "sc_isMerged m" by simp
  from m show os: "sc_originalSlots m = map captureSlot slots" by simp
  from im os slots show "Split m = Inr (map (restoreSlot m) (sc_originalSlots m))"
    by (simp add: Split_def)
  show "map captureSlot (map (restoreSlot m) (sc_originalSlots m)) = sc_originalSlots m"
    using restore_capture [of m] by (simp add: os comp_def)
  from Merge_restored [OF slots a b c t m]
  show "Merge (map (restoreSlot m) (sc_originalSlots m)) label = Inr m" by (simp add: os)
next
  assume "Split e = Inr bs"
  then show "bs = map (restoreSlot e) (sc_originalSlots e)"
    by (auto simp: Split_def split: if_splits)
next
  assume "\<not> sc_isMerged e \<or> sc_originalSlots e = []"
  then show "Split e = Inl ValidationError" by (auto simp: Split_def)
qed


theorem split_then_merge_round_trip_witness:
  "Merge [slotA, slotB] ''Lab Session'' = Inr mergedLab
   \<and> sc_mergedSessionRange mergedLab = Some ''09:00-11:00''
   \<and> Split mergedLab = Inr (map (restoreSlot mergedLab) (sc_originalSlots mergedLab))
   \<and> map sb_entry (map (restoreSlot mergedLab) (sc_originalSlots mergedLab))
        = [sb_entry slotA, sb_entry slotB]
   \<and> Merge (map (restoreSlot mergedLab) (sc_originalSlots mergedLab)) ''Lab Session''
        = Inr mergedLab
   \<and> \<not> sc_isMerged labEntry \<and> Split labEntry = Inl ValidationError"
proof -
  have a: "Merge [slotA, slotB] ''Lab Session'' = Inr mergedLab" by code_simp
  have r: "sc_mergedSessionRange mergedLab = Some ''09:00-11:00''" by (simp add: mergedLab_def)
  have e: "map sb_entry (map (restoreSlot mergedLab) (sc_originalSlots mergedLab))
        = [sb_entry slotA, sb_entry slotB]" by code_simp
  have n: "\<not> sc_isMerged labEntry" by (simp add: labEntry_def)
  note t = split_then_merge_round_trip
             [of "[slotA, slotB]" "''Lab Session''" mergedLab labEntry]
  from t a
  have 1: "Split mergedLab = Inr (map (restoreSlot mergedLab) (sc_originalSlots mergedLab))"
    and 2: "Merge (map (restoreSlot mergedLab) (sc_originalSlots mergedLab)) ''Lab Session''
        = Inr mergedLab" by blast+
  from t n have 3: "Split labEntry = Inl ValidationError" by blast
  from a r e n 1 2 3 show ?thesis by blast
qed

section \<open>Expansion: cancelled dates\<close>






section \<open>Expansion: idempotence of materialising\<close>

lemma upsert_keys:
  "map instanceKey (upsertInstance i s) =
     (if instanceKey i \<in> set (map instanceKey s) then map instanceKey s
      else map instanceKey s @ [instanceKey i])"
  by (induction s) auto

lemma upsert_distinct:
  "distinct (map instanceKey s) \<Longrightarrow> distinct (map instanceKey (upsertInstance i s))"
  by (simp add: upsert_keys)

lemma upsert_lookup:
  "lookupInstance k (upsertInstance i s) =
     (if instanceKey i = k then supersede i (lookupInstance k s) else lookupInstance k s)"
  by (induction s) (auto simp: lookupInstance_def supersede_def)

lemma find_absent: "k \<notin> set (map f xs) \<Longrightarrow> find (\<lambda>x. f x = k) xs = None"
  by (induction xs) auto

lemma store_eqI:
  assumes "distinct (map instanceKey s)" "map instanceKey s = map instanceKey t"
    and "\<And>k. lookupInstance k s = lookupInstance k t"
  shows "s = t"
  using assms
proof (induction s arbitrary: t)
  case Nil
  then show ?case by simp
next
  case (Cons x xs)
  from Cons.prems(2) obtain y ys where t: "t = y # ys" and k: "instanceKey y = instanceKey x"
    and ks: "map instanceKey xs = map instanceKey ys" by (cases t) auto
  from Cons.prems(3) [of "instanceKey x"] t k have xy: "x = y"
    by (simp add: lookupInstance_def)
  from Cons.prems(1) have nx: "instanceKey x \<notin> set (map instanceKey xs)" by simp
  have "lookupInstance k xs = lookupInstance k ys" for k
  proof (cases "k = instanceKey x")
    case True
    from nx have "lookupInstance k xs = None"
      unfolding lookupInstance_def True by (rule find_absent)
    moreover from nx ks have "instanceKey x \<notin> set (map instanceKey ys)" by simp
    then have "lookupInstance k ys = None"
      unfolding lookupInstance_def True by (rule find_absent)
    ultimately show ?thesis by simp
  next
    case False
    with Cons.prems(3) [of k] t k show ?thesis by (simp add: lookupInstance_def)
  qed
  with Cons.IH [of ys] Cons.prems(1) ks have "xs = ys" by simp
  with xy t show ?case by simp
qed

lemma materialize_distinct:
  "distinct (map instanceKey s) \<Longrightarrow> distinct (map instanceKey (materialize L s))"
  unfolding materialize_def
  by (induction L arbitrary: s) (simp_all add: upsert_distinct)

lemma materialize_lookup:
  "lookupInstance k (materialize L s) =
     fold supersede (filter (\<lambda>i. instanceKey i = k) L) (lookupInstance k s)"
  unfolding materialize_def
  by (induction L arbitrary: s) (simp_all add: upsert_lookup)

lemma materialize_keys_mono:
  "set (map instanceKey s) \<subseteq> set (map instanceKey (materialize L s))"
  unfolding materialize_def
proof (induction L arbitrary: s)
  case Nil
  then show ?case by simp
next
  case (Cons i L)
  have "set (map instanceKey s) \<subseteq> set (map instanceKey (upsertInstance i s))"
    by (auto simp: upsert_keys)
  with Cons [of "upsertInstance i s"] show ?case by auto
qed

lemma materialize_keys_cover:
  "instanceKey ` set L \<subseteq> set (map instanceKey (materialize L s))"
proof (induction L arbitrary: s)
  case Nil
  then show ?case by simp
next
  case (Cons i L)
  have "instanceKey i \<in> set (map instanceKey (upsertInstance i s))"
    by (auto simp: upsert_keys)
  with materialize_keys_mono [of "upsertInstance i s" L]
  have "instanceKey i \<in> set (map instanceKey (materialize (i # L) s))"
    by (auto simp: materialize_def)
  moreover from Cons [of "upsertInstance i s"]
  have "instanceKey ` set L \<subseteq> set (map instanceKey (materialize (i # L) s))"
    by (simp add: materialize_def)
  ultimately show ?case by auto
qed

lemma materialize_keys_present:
  "instanceKey ` set L \<subseteq> set (map instanceKey s) \<Longrightarrow>
     map instanceKey (materialize L s) = map instanceKey s"
proof (induction L arbitrary: s)
  case Nil
  then show ?case by (simp add: materialize_def)
next
  case (Cons i L)
  from Cons.prems have k: "map instanceKey (upsertInstance i s) = map instanceKey s"
    by (simp add: upsert_keys)
  with Cons.prems have "instanceKey ` set L \<subseteq> set (map instanceKey (upsertInstance i s))"
    by simp
  from Cons.IH [OF this] k show ?case by (simp add: materialize_def)
qed

text \<open>The Instance under one key, as a run of newly resolved Instances passes over it.\<close>

lemma supersede_run_Some:
  "fold supersede L (Some x) =
     (if \<forall>i \<in> set L. si_overrideId i = si_overrideId x then Some x else fold supersede L None)"
proof (induction L arbitrary: x)
  case Nil
  then show ?case by simp
next
  case (Cons i L)
  show ?case
  proof (cases "si_overrideId x = si_overrideId i")
    case True
    then have "fold supersede (i # L) (Some x) = fold supersede L (Some x)"
      by (simp add: supersede_def)
    moreover have "fold supersede (i # L) None = fold supersede L (Some i)"
      by (simp add: supersede_def)
    ultimately show ?thesis using Cons [of x] Cons [of i] True by auto
  next
    case False
    then have "fold supersede (i # L) (Some x) = fold supersede L (Some i)"
      by (simp add: supersede_def)
    moreover have "fold supersede (i # L) None = fold supersede L (Some i)"
      by (simp add: supersede_def)
    ultimately show ?thesis using False by auto
  qed
qed

lemma supersede_run_binding:
  "L \<noteq> [] \<Longrightarrow> \<exists>y. fold supersede L c = Some y \<and> si_overrideId y = si_overrideId (last L)"
proof (induction L arbitrary: c)
  case Nil
  then show ?case by simp
next
  case (Cons i L)
  have "\<exists>z. supersede i c = Some z \<and> si_overrideId z = si_overrideId i"
    by (cases c) (simp_all add: supersede_def)
  then obtain z where z: "supersede i c = Some z" "si_overrideId z = si_overrideId i"
    by blast
  show ?case
  proof (cases "L = []")
    case True
    with z show ?thesis by simp
  next
    case False
    with Cons.IH [of "supersede i c"] show ?thesis by simp
  qed
qed

lemma supersede_run_idem:
  "fold supersede L (fold supersede L c) = fold supersede L c"
proof (cases "L = []")
  case True
  then show ?thesis by simp
next
  case False
  from supersede_run_binding [OF False, of c] obtain y where
    y: "fold supersede L c = Some y" "si_overrideId y = si_overrideId (last L)" by blast
  show ?thesis
  proof (cases "\<forall>i \<in> set L. si_overrideId i = si_overrideId y")
    case True
    with y show ?thesis by (simp add: supersede_run_Some)
  next
    case diff: False
    have "fold supersede L None = Some y"
    proof (cases c)
      case None
      with y show ?thesis by simp
    next
      case (Some x)
      show ?thesis
      proof (cases "\<forall>i \<in> set L. si_overrideId i = si_overrideId x")
        case True
        with Some y have "y = x" by (simp add: supersede_run_Some)
        with True diff show ?thesis by simp
      next
        case False
        with Some y show ?thesis by (simp add: supersede_run_Some)
      qed
    qed
    with y diff show ?thesis by (simp add: supersede_run_Some)
  qed
qed

lemma materialize_idem:
  assumes "distinct (map instanceKey s)"
  shows "materialize L (materialize L s) = materialize L s"
proof (rule store_eqI)
  show "distinct (map instanceKey (materialize L (materialize L s)))"
    using assms by (simp add: materialize_distinct)
  show "map instanceKey (materialize L (materialize L s)) = map instanceKey (materialize L s)"
    using materialize_keys_cover [of L s] by (rule materialize_keys_present)
  show "lookupInstance k (materialize L (materialize L s)) = lookupInstance k (materialize L s)" for k
    by (simp add: materialize_lookup supersede_run_idem)
qed


text \<open>
  C2. For every template, override set and date range, and every Instance store that
  holds at most one Instance per (template, date): expanding into the store twice
  leaves exactly the store that expanding once leaves, and both stores again hold at
  most one Instance per (template, date), so no duplicate is created.
\<close>

theorem expand_twice_same_instances:
  assumes "distinct (map instanceKey store)"
  shows "expandInto ovs t a b (expandInto ovs t a b store) = expandInto ovs t a b store
         \<and> distinct (map instanceKey (expandInto ovs t a b store))
         \<and> distinct (map instanceKey (expandInto ovs t a b (expandInto ovs t a b store)))"
  using assms materialize_idem [OF assms, of "Expand ovs t a b"]
    materialize_distinct [OF assms, of "Expand ovs t a b"]
  by (simp add: expandInto_def)

theorem expand_twice_same_instances_witness:
  "distinct (map instanceKey [])
   \<and> map si_scheduledDate (expandInto [sundayReschedule] mondayTemplate 20270 20300 [])
        = [Some 20276, Some 20282, Some 20290, Some 20297]
   \<and> expandInto [sundayReschedule] mondayTemplate 20270 20300
        (expandInto [sundayReschedule] mondayTemplate 20270 20300 [])
      = expandInto [sundayReschedule] mondayTemplate 20270 20300 []
   \<and> distinct (map instanceKey (expandInto [sundayReschedule] mondayTemplate 20270 20300 []))"
proof -
  have d: "distinct (map instanceKey ([] :: scheduleInstance list))" by simp
  have m: "map si_scheduledDate (expandInto [sundayReschedule] mondayTemplate 20270 20300 [])
        = [Some 20276, Some 20282, Some 20290, Some 20297]" by code_simp
  from expand_twice_same_instances [OF d, of "[sundayReschedule]" mondayTemplate 20270 20300] d m
  show ?thesis by simp
qed

end
